theory Spec2Isabelle
  imports Main
begin

section \<open>The file explorer with sizes: data model\<close>

text \<open>
  The development follows the TypeScript source of the explorer (namespace \<open>_\<close>, class
  \<open>FileStat\<close>, class \<open>FileSystemProvider\<close>). Everything the source calls but does not
  define (Node's \<open>fs\<close> and \<open>path\<close> modules, the string methods, the packages
  \<open>filesize\<close>, \<open>gzip-size\<close> and \<open>fast-folder-size\<close>) is either a field of one of the two
  records \<open>host\<close> and \<open>filesystem\<close>, or a small definition marked as host behaviour.
\<close>

subsection \<open>Values of the host language\<close>

text \<open>\<open>vscode.FileType\<close>: Unknown = 0, File = 1, Directory = 2, SymbolicLink = 64.\<close>

datatype FileType = Unknown | File | Directory | SymbolicLink

text \<open>\<open>vscode.FileChangeType\<close>.\<close>

datatype FileChangeType = Changed | Created | Deleted

text \<open>A Node error object; the source reads only its optional \<open>code\<close>.\<close>

datatype os_error = OsError (code: "string option")

text \<open>
  What a promise of the source can be rejected with, or a call can throw: the four
  \<open>vscode.FileSystemError\<close> kinds of \<open>massageError\<close>, an operating-system error passed
  through unchanged, a \<open>TypeError\<close> of the host, and the error of \<open>checkCancellation\<close>.
\<close>

datatype error =
    FileNotFound
  | FileIsADirectory
  | FileExists
  | NoPermissions
  | Unmassaged os_error
  | TypeError
  | OperationCancelled

text \<open>
  A promise as its caller observes it: resolved with a value, rejected with an error, or
  never settled (\<open>Pending\<close>), which is what a promise whose executor neither resolves nor
  rejects stays.
\<close>

datatype 'a promise = Resolved 'a | Rejected error | Pending

definition await :: "'a promise \<Rightarrow> ('a \<Rightarrow> 'b promise) \<Rightarrow> 'b promise" where
  "await p k = (case p of Resolved v \<Rightarrow> k v | Rejected e \<Rightarrow> Rejected e | Pending \<Rightarrow> Pending)"

text \<open>A JavaScript number that may be \<open>NaN\<close> (the value of \<open>getTime()\<close> on an invalid date).\<close>

datatype js_number = Num int | NaN

subsection \<open>Node's \<open>fs.Stats\<close>\<close>

text \<open>
  Host behaviour (Node.js). An \<open>fs.Stats\<close> object carries the numeric \<open>mode\<close> and \<open>size\<close>
  and the dates \<open>ctime\<close> and \<open>mtime\<close>. A field is \<open>None\<close> when the JavaScript value is
  \<open>undefined\<close> (for a date: when the date is invalid). \<open>isFile()\<close>, \<open>isDirectory()\<close> and
  \<open>isSymbolicLink()\<close> compare \<open>mode & S_IFMT\<close> with \<open>S_IFREG\<close>, \<open>S_IFDIR\<close> and \<open>S_IFLNK\<close>;
  \<open>undefined & S_IFMT\<close> is 0.
\<close>

record fs_stats =
  st_mode :: "nat option"
  st_size :: "nat option"
  st_ctime :: "int option"
  st_mtime :: "int option"

definition S_IFMT :: nat where "S_IFMT = 61440"
definition S_IFREG :: nat where "S_IFREG = 32768"
definition S_IFDIR :: nat where "S_IFDIR = 16384"
definition S_IFLNK :: nat where "S_IFLNK = 40960"

definition checkModeProperty :: "fs_stats \<Rightarrow> nat \<Rightarrow> bool" where
  "checkModeProperty s property =
     (and (case st_mode s of None \<Rightarrow> 0 | Some m \<Rightarrow> m) S_IFMT = property)"

definition Stats_isFile :: "fs_stats \<Rightarrow> bool" where
  "Stats_isFile s = checkModeProperty s S_IFREG"

definition Stats_isDirectory :: "fs_stats \<Rightarrow> bool" where
  "Stats_isDirectory s = checkModeProperty s S_IFDIR"

definition Stats_isSymbolicLink :: "fs_stats \<Rightarrow> bool" where
  "Stats_isSymbolicLink s = checkModeProperty s S_IFLNK"

definition getTime :: "int option \<Rightarrow> js_number" where
  "getTime d = (case d of None \<Rightarrow> NaN | Some ms \<Rightarrow> Num ms)"

text \<open>
  Host behaviour (Node.js): \<open>new fs.Stats()\<close>, the constructor called with no argument,
  leaves every numeric field \<open>undefined\<close> and every date invalid.
\<close>

definition new_Stats :: fs_stats where
  "new_Stats = \<lparr>st_mode = None, st_size = None, st_ctime = None, st_mtime = None\<rparr>"

subsection \<open>The filesystem and the platform\<close>

text \<open>
  The state of the disk at one instant, as the calls of the source observe it:
  \<^item> \<open>statSync\<close>: \<open>fs.statSync(path)\<close>, which throws (\<open>Inl\<close>) or returns the metadata;
  \<^item> \<open>fs_readdir\<close>: \<open>fs.readdir(path, callback)\<close>, which throws synchronously, or calls
    back with an error (and no listing), or calls back with the names (on Linux and macOS
    in the order of \<open>strcmp\<close>, which is how the sample disks below list them);
  \<^item> \<open>fs_access\<close>: whether \<open>fs.access(path)\<close> succeeds;
  \<^item> \<open>gzip_fileSync\<close>: \<open>gzipSize.fileSync(path)\<close>, \<open>None\<close> when it throws;
  \<^item> \<open>fastFolderSize\<close>: the package's function, which throws synchronously or calls back
    with \<open>(err, result)\<close>, where \<open>result\<close> may be \<open>undefined\<close>.
\<close>

datatype readdir_outcome =
    ReaddirThrows
  | ReaddirError os_error
  | ReaddirOk "string list"

datatype folder_size_outcome =
    FolderSizeThrows
  | FolderSizeCallback "os_error option" "nat option"

record filesystem =
  statSync :: "string \<Rightarrow> os_error + fs_stats"
  fs_readdir :: "string \<Rightarrow> readdir_outcome"
  fs_access :: "string \<Rightarrow> bool"
  gzip_fileSync :: "string \<Rightarrow> nat option"
  fastFolderSize :: "string \<Rightarrow> folder_size_outcome"

text \<open>
  The platform: \<open>process.platform\<close>, \<open>String.prototype.normalize('NFC')\<close>, \<open>path.join\<close>,
  \<open>String.prototype.localeCompare\<close>, what \<open>filesize\<close> prints for a number, and what the
  engine's \<open>Array.prototype.sort\<close> does with a directory listing of 64 or more children
  (the merging phase of its sort, which is not modelled here).
\<close>

record host =
  platform :: string
  normalize_NFC :: "string \<Rightarrow> string"
  path_join :: "string \<Rightarrow> string \<Rightarrow> string"
  localeCompare :: "string \<Rightarrow> string \<Rightarrow> int"
  filesize_number :: "nat \<Rightarrow> string"
  sort_merging ::
    "(string \<times> FileType \<Rightarrow> string \<times> FileType \<Rightarrow> int) \<Rightarrow> (string \<times> FileType) list
      \<Rightarrow> (string \<times> FileType) list"

text \<open>
  Host behaviour (package \<open>filesize\<close>): the function throws a \<open>TypeError\<close> when its
  argument is not a number (\<open>isNaN(undefined)\<close> holds), and prints a number otherwise.
\<close>

definition filesize :: "host \<Rightarrow> nat option \<Rightarrow> error + string" where
  "filesize h arg = (case arg of None \<Rightarrow> Inl TypeError | Some n \<Rightarrow> Inr (filesize_number h n))"

text \<open>
  \<open>vscode.Uri\<close>, reduced to the scheme and the path; \<open>fsPath\<close> of a uri is its path (the
  POSIX case), \<open>Uri.file(p)\<close> has the scheme \<open>file\<close>, and \<open>uri.with({path: p})\<close> replaces
  the path.
\<close>

record Uri =
  scheme :: string
  uri_path :: string

definition fsPath :: "Uri \<Rightarrow> string" where
  "fsPath u = uri_path u"

definition Uri_file :: "string \<Rightarrow> Uri" where
  "Uri_file p = \<lparr>scheme = ''file'', uri_path = p\<rparr>"

definition Uri_with_path :: "Uri \<Rightarrow> string \<Rightarrow> Uri" where
  "Uri_with_path u p = u\<lparr>uri_path := p\<rparr>"

section \<open>Namespace \<open>_\<close>\<close>

definition massageError :: "os_error \<Rightarrow> error" where
  "massageError e =
     (if code e = Some ''ENOENT'' then FileNotFound
      else if code e = Some ''EISDIR'' then FileIsADirectory
      else if code e = Some ''EEXIST'' then FileExists
      else if code e = Some ''EPERM'' \<or> code e = Some ''EACCESS'' \<or> code e = Some ''EBUSY''
        then NoPermissions
      else Unmassaged e)"

definition handleResult :: "os_error option \<Rightarrow> 'a \<Rightarrow> 'a promise" where
  "handleResult err result =
     (case err of Some e \<Rightarrow> Rejected (massageError e) | None \<Rightarrow> Resolved result)"

record CancellationToken =
  isCancellationRequested :: bool

definition checkCancellation :: "CancellationToken \<Rightarrow> error + unit" where
  "checkCancellation token =
     (if isCancellationRequested token then Inl OperationCancelled else Inr ())"

text \<open>\<open>normalizeNFC\<close> on one string and on an array of strings.\<close>

definition normalizeNFC :: "host \<Rightarrow> string \<Rightarrow> string" where
  "normalizeNFC h items = (if platform h \<noteq> ''darwin'' then items else normalize_NFC h items)"

definition normalizeNFC_array :: "host \<Rightarrow> string list \<Rightarrow> string list" where
  "normalizeNFC_array h items =
     (if platform h \<noteq> ''darwin'' then items else map (normalize_NFC h) items)"

text \<open>
  \<open>readdir\<close>. When \<open>fs.readdir\<close> throws, the error is caught and logged and the promise is
  never settled. When the callback reports an error, its second argument is \<open>undefined\<close>
  and \<open>normalizeNFC(children)\<close> is evaluated before \<open>handleResult\<close> is entered: off darwin
  it returns its argument and the promise is rejected with the massaged error; on darwin
  it calls \<open>normalize\<close> on \<open>undefined\<close>, the callback throws, and the promise is never
  settled.
\<close>

definition readdir :: "host \<Rightarrow> filesystem \<Rightarrow> string \<Rightarrow> string list promise" where
  "readdir h fs p =
     (case fs_readdir fs p of
        ReaddirThrows \<Rightarrow> Pending
      | ReaddirError e \<Rightarrow>
          (if platform h \<noteq> ''darwin'' then handleResult (Some e) [] else Pending)
      | ReaddirOk children \<Rightarrow> handleResult None (normalizeNFC_array h children))"

text \<open>\<open>stat\<close> of the namespace: the metadata, or an empty \<open>fs.Stats\<close> when \<open>statSync\<close> throws.\<close>

definition stat :: "filesystem \<Rightarrow> string \<Rightarrow> fs_stats promise" where
  "stat fs p = (case statSync fs p of Inr info \<Rightarrow> Resolved info | Inl e \<Rightarrow> Resolved new_Stats)"

definition path_exists :: "filesystem \<Rightarrow> string \<Rightarrow> bool" where
  "path_exists fs p = (if fs_access fs p then True else False)"

section \<open>Class \<open>FileStat\<close>\<close>

text \<open>The getters of \<open>FileStat\<close>, each a function of the wrapped \<open>fs.Stats\<close>.\<close>

definition FileStat_type :: "fs_stats \<Rightarrow> FileType" where
  "FileStat_type s =
     (if Stats_isFile s then File
      else if Stats_isDirectory s then Directory
      else if Stats_isSymbolicLink s then SymbolicLink
      else Unknown)"

definition FileStat_isFile :: "fs_stats \<Rightarrow> bool" where
  "FileStat_isFile s = Stats_isFile s"

definition FileStat_isDirectory :: "fs_stats \<Rightarrow> bool" where
  "FileStat_isDirectory s = Stats_isDirectory s"

definition FileStat_isSymbolicLink :: "fs_stats \<Rightarrow> bool" where
  "FileStat_isSymbolicLink s = Stats_isSymbolicLink s"

definition FileStat_size :: "fs_stats \<Rightarrow> nat option" where
  "FileStat_size s = st_size s"

definition FileStat_ctime :: "fs_stats \<Rightarrow> js_number" where
  "FileStat_ctime s = getTime (st_ctime s)"

definition FileStat_mtime :: "fs_stats \<Rightarrow> js_number" where
  "FileStat_mtime s = getTime (st_mtime s)"

text \<open>The descriptor a caller of \<open>FileSystemProvider.stat\<close> reads through the getters.\<close>

record FileStat =
  fstype :: FileType
  isFile :: bool
  isDirectory :: bool
  isSymbolicLink :: bool
  fsize :: "nat option"
  ctime :: js_number
  mtime :: js_number

definition new_FileStat :: "fs_stats \<Rightarrow> FileStat" where
  "new_FileStat s =
     \<lparr>fstype = FileStat_type s, isFile = FileStat_isFile s, isDirectory = FileStat_isDirectory s,
      isSymbolicLink = FileStat_isSymbolicLink s, fsize = FileStat_size s,
      ctime = FileStat_ctime s, mtime = FileStat_mtime s\<rparr>"

section \<open>Class \<open>FileSystemProvider\<close>\<close>

definition provider_stat :: "filesystem \<Rightarrow> string \<Rightarrow> FileStat promise" where
  "provider_stat fs p = await (stat fs p) (\<lambda>s. Resolved (new_FileStat s))"

text \<open>\<open>readDirectory\<close>: the listing, then one \<open>_stat\<close> per child, pushed in order.\<close>

fun readDirectory_loop ::
  "host \<Rightarrow> filesystem \<Rightarrow> Uri \<Rightarrow> string list \<Rightarrow> (string \<times> FileType) list
    \<Rightarrow> (string \<times> FileType) list promise" where
  "readDirectory_loop h fs uri [] result = Resolved result"
| "readDirectory_loop h fs uri (child # rest) result =
     await (provider_stat fs (path_join h (fsPath uri) child))
       (\<lambda>st. readDirectory_loop h fs uri rest (result @ [(child, fstype st)]))"

definition readDirectory :: "host \<Rightarrow> filesystem \<Rightarrow> Uri \<Rightarrow> (string \<times> FileType) list promise" where
  "readDirectory h fs uri =
     await (readdir h fs (fsPath uri)) (\<lambda>children. readDirectory_loop h fs uri children [])"

text \<open>
  Host behaviour (\<open>Array.prototype.sort\<close> with a comparator, as the V8 engine of the
  extension host runs it). An array of fewer than two elements is left alone. On fewer
  than 64 elements the sort is one run detection followed by a binary insertion sort:
  \<^item> \<open>CountAndMakeRun\<close> compares the second element with the first; when it is below
    (\<open>order < 0\<close>) the run is descending and goes on while each element is below its
    predecessor, otherwise it is ascending and goes on while no element is below its
    predecessor; a descending run is reversed;
  \<^item> \<open>BinaryInsertionSort\<close> then takes each remaining element as the pivot, searches the
    sorted part by halving (\<open>right = mid\<close> when the pivot is below the middle element,
    \<open>left = mid + 1\<close> otherwise) and inserts the pivot at \<open>left\<close>.
  Every comparison is a call of the comparator, so the result is defined for a comparator
  that is not consistent too. Longer arrays go through the merging phase, which is the
  host's \<open>sort_merging\<close>.
\<close>

fun run_tail :: "('a \<Rightarrow> 'a \<Rightarrow> int) \<Rightarrow> bool \<Rightarrow> 'a \<Rightarrow> 'a list \<Rightarrow> nat" where
  "run_tail cmp isDescending previousElement [] = 0"
| "run_tail cmp isDescending previousElement (currentElement # later) =
     (let order = cmp currentElement previousElement
      in if (if isDescending then order \<ge> 0 else order < 0) then 0
         else Suc (run_tail cmp isDescending currentElement later))"

definition countAndMakeRun :: "('a \<Rightarrow> 'a \<Rightarrow> int) \<Rightarrow> 'a list \<Rightarrow> 'a list \<times> 'a list" where
  "countAndMakeRun cmp xs =
     (case xs of
        elementHigh # elementLow # later \<Rightarrow>
          (let isDescending = cmp elementLow elementHigh < 0;
               runLength = 2 + run_tail cmp isDescending elementLow later
           in (if isDescending then rev (take runLength xs) else take runLength xs,
               drop runLength xs))
      | _ \<Rightarrow> (xs, []))"

function binarySearch :: "('a \<Rightarrow> 'a \<Rightarrow> int) \<Rightarrow> 'a \<Rightarrow> 'a list \<Rightarrow> nat \<Rightarrow> nat \<Rightarrow> nat" where
  "binarySearch cmp pivot run left right =
     (if left < right then
        (let mid = left + (right - left) div 2
         in if cmp pivot (run ! mid) < 0 then binarySearch cmp pivot run left mid
            else binarySearch cmp pivot run (mid + 1) right)
      else left)"
  by pat_completeness auto
termination
  by (relation "measure (\<lambda>(cmp, pivot, run, left, right). right - left)") auto

declare binarySearch.simps [simp del]

fun binaryInsertionSort :: "('a \<Rightarrow> 'a \<Rightarrow> int) \<Rightarrow> 'a list \<Rightarrow> 'a list \<Rightarrow> 'a list" where
  "binaryInsertionSort cmp run [] = run"
| "binaryInsertionSort cmp run (pivot # later) =
     (let left = binarySearch cmp pivot run 0 (length run)
      in binaryInsertionSort cmp (take left run @ pivot # drop left run) later)"

definition array_sort ::
  "host \<Rightarrow> (string \<times> FileType \<Rightarrow> string \<times> FileType \<Rightarrow> int) \<Rightarrow> (string \<times> FileType) list
    \<Rightarrow> (string \<times> FileType) list" where
  "array_sort h cmp xs =
     (if length xs < 2 then xs
      else if length xs < 64 then
        (case countAndMakeRun cmp xs of (run, later) \<Rightarrow> binaryInsertionSort cmp run later)
      else sort_merging h cmp xs)"

text \<open>The comparator that \<open>getChildren\<close> passes to \<open>sort\<close>.\<close>

definition compareChildren :: "host \<Rightarrow> string \<times> FileType \<Rightarrow> string \<times> FileType \<Rightarrow> int" where
  "compareChildren h a b =
     (if snd a = snd b then localeCompare h (fst a) (fst b)
      else if snd a = Directory then - 1 else 1)"

record Entry =
  entry_uri :: Uri
  entry_type :: FileType

record WorkspaceFolder =
  folder_uri :: Uri
  folder_name :: string

definition toEntries :: "host \<Rightarrow> Uri \<Rightarrow> (string \<times> FileType) list \<Rightarrow> Entry list" where
  "toEntries h base children =
     map (\<lambda>(name, type). \<lparr>entry_uri = Uri_file (path_join h (fsPath base) name), entry_type = type\<rparr>)
       children"

text \<open>
  \<open>getChildren\<close>. \<open>workspaceFolders\<close> is \<open>None\<close> when \<open>vscode.workspace.workspaceFolders\<close>
  is \<open>undefined\<close>; \<open>element\<close> is \<open>None\<close> for the root request.
\<close>

definition getChildren ::
  "host \<Rightarrow> filesystem \<Rightarrow> WorkspaceFolder list option \<Rightarrow> Entry option \<Rightarrow> Entry list promise" where
  "getChildren h fs workspaceFolders element =
     (case workspaceFolders of
        None \<Rightarrow> Resolved []
      | Some folders \<Rightarrow>
          (case element of
             Some e \<Rightarrow>
               await (readDirectory h fs (entry_uri e))
                 (\<lambda>children. Resolved (toEntries h (entry_uri e) children))
           | None \<Rightarrow>
               (case filter (\<lambda>folder. scheme (folder_uri folder) = ''file'') folders of
                  [] \<Rightarrow> Resolved []
                | workspaceFolder # others \<Rightarrow>
                    await (readDirectory h fs (folder_uri workspaceFolder))
                      (\<lambda>children. Resolved (toEntries h (folder_uri workspaceFolder)
                          (array_sort h (compareChildren h) children))))))"

datatype TreeItemCollapsibleState = CollapsibleNone | Collapsed | Expanded

record Command =
  cmd_command :: string
  cmd_title :: string
  cmd_arguments :: "Uri list"

record TreeItem =
  resourceUri :: Uri
  collapsibleState :: TreeItemCollapsibleState
  command :: "Command option"
  contextValue :: "string option"
  description :: "string option"

definition new_TreeItem :: "Uri \<Rightarrow> TreeItemCollapsibleState \<Rightarrow> TreeItem" where
  "new_TreeItem u c =
     \<lparr>resourceUri = u, collapsibleState = c, command = None, contextValue = None,
      description = None\<rparr>"

definition getGzipSize :: "filesystem \<Rightarrow> string \<Rightarrow> nat" where
  "getGzipSize fs p = (case gzip_fileSync fs p of Some n \<Rightarrow> n | None \<Rightarrow> 0)"

text \<open>
  \<open>_getDirSize\<close>: the promise is resolved with the callback's \<open>result\<close>, whatever \<open>err\<close> is,
  and with 0 when \<open>fastFolderSize\<close> throws.
\<close>

definition getDirSize :: "filesystem \<Rightarrow> string \<Rightarrow> nat option promise" where
  "getDirSize fs p =
     (case fastFolderSize fs p of
        FolderSizeThrows \<Rightarrow> Resolved (Some 0)
      | FolderSizeCallback err result \<Rightarrow> Resolved result)"

text \<open>
  \<open>getTreeItem\<close>. The \<open>try\<close> around \<open>await this.stat(...)\<close> keeps \<open>size = 0\<close> when that
  promise is rejected. A throw of \<open>filesize\<close> rejects the promise of \<open>getTreeItem\<close>.
\<close>

definition getTreeItem :: "host \<Rightarrow> filesystem \<Rightarrow> Entry \<Rightarrow> TreeItem promise" where
  "getTreeItem h fs element =
     (let treeItem = new_TreeItem (entry_uri element)
            (if entry_type element = Directory then Collapsed else CollapsibleNone)
      in
        if entry_type element = File then
          (let treeItem = treeItem
                 \<lparr>command := Some \<lparr>cmd_command = ''fileExplorer.openFile'', cmd_title = ''Open File'',
                                   cmd_arguments = [entry_uri element]\<rparr>,
                  contextValue := Some ''file''\<rparr>;
               describe = (\<lambda>size.
                 (case filesize h size of
                    Inl e \<Rightarrow> Rejected e
                  | Inr s1 \<Rightarrow>
                      (case filesize h (Some (getGzipSize fs (fsPath (entry_uri element)))) of
                         Inl e \<Rightarrow> Rejected e
                       | Inr s2 \<Rightarrow>
                           Resolved (treeItem
                             \<lparr>description := Some ('' -  '' @ s1 @ '' - ('' @ s2 @ '')'')\<rparr>))))
           in
             (case provider_stat fs (fsPath (entry_uri element)) of
                Resolved st \<Rightarrow> describe (fsize st)
              | Rejected e \<Rightarrow> describe (Some 0)
              | Pending \<Rightarrow> Pending))
        else if entry_type element = Directory then
          await (getDirSize fs (fsPath (entry_uri element)))
            (\<lambda>size.
               (case filesize h size of
                  Inl e \<Rightarrow> Rejected e
                | Inr s \<Rightarrow> Resolved (treeItem\<lparr>description := Some ('' - '' @ s)\<rparr>)))
        else Resolved treeItem)"

text \<open>
  \<open>watch\<close>. The listener is an \<open>async\<close> function. For the event \<open>change\<close> it fires
  before it returns to \<open>fs.watch\<close>; for any other event it first awaits
  \<open>_.exists(filepath)\<close> and fires only once that \<open>fs.access\<close> has settled, so a later
  \<open>change\<close> can be republished before an earlier \<open>rename\<close>. The event loop is therefore a
  sequence of turns: either \<open>fs.watch\<close> calls the listener with an event and a file name,
  or the \<open>fs.access\<close> that the listener of notification number \<open>k\<close> started settles,
  against the disk as it is at that moment.

  The state of a watcher: how many notifications have arrived, the listeners that are
  suspended at their \<open>await\<close> (notification number and path), and the arrays fired so far
  on \<open>_onDidChangeFile\<close>, in firing order, each with the number of the notification it
  answers.
\<close>

datatype loop_turn =
    Notified string string
  | AccessSettled nat filesystem

record FileChangeEvent =
  change_type :: FileChangeType
  change_uri :: Uri

record watcher =
  notified :: nat
  awaiting :: "(nat \<times> string) list"
  fired :: "(nat \<times> FileChangeEvent list) list"

record watch_options =
  recursive :: bool
  excludes :: "string list"

definition new_watcher :: watcher where
  "new_watcher = \<lparr>notified = 0, awaiting = [], fired = []\<rparr>"

text \<open>The listener, from its call to its first \<open>await\<close> or to its end.\<close>

definition watch_listener :: "host \<Rightarrow> Uri \<Rightarrow> watcher \<Rightarrow> string \<Rightarrow> string \<Rightarrow> watcher" where
  "watch_listener h uri w event filename =
     (let filepath = path_join h (fsPath uri) (normalizeNFC h filename);
          k = notified w
      in if event = ''change'' then
           w\<lparr>notified := Suc k,
              fired := fired w @
                [(k, [\<lparr>change_type = Changed, change_uri = Uri_with_path uri filepath\<rparr>])]\<rparr>
         else w\<lparr>notified := Suc k, awaiting := awaiting w @ [(k, filepath)]\<rparr>)"

text \<open>The rest of the listener of notification \<open>k\<close>, once \<open>_.exists(filepath)\<close> has its answer.\<close>

definition watch_resume :: "Uri \<Rightarrow> watcher \<Rightarrow> nat \<Rightarrow> filesystem \<Rightarrow> watcher" where
  "watch_resume uri w k disk =
     (case map_of (awaiting w) k of
        None \<Rightarrow> w
      | Some filepath \<Rightarrow>
          w\<lparr>awaiting := filter (\<lambda>suspended. fst suspended \<noteq> k) (awaiting w),
             fired := fired w @
               [(k, [\<lparr>change_type = (if path_exists disk filepath then Created else Deleted),
                       change_uri = Uri_with_path uri filepath\<rparr>])]\<rparr>)"

fun watch_turn :: "host \<Rightarrow> Uri \<Rightarrow> watcher \<Rightarrow> loop_turn \<Rightarrow> watcher" where
  "watch_turn h uri w (Notified event filename) = watch_listener h uri w event filename"
| "watch_turn h uri w (AccessSettled k disk) = watch_resume uri w k disk"

text \<open>
  \<open>fs_watch\<close> is the host's side of a subscription: the turns of the event loop for a
  watcher on a path with a \<open>recursive\<close> flag. The value of \<open>watch\<close> is the state the
  watcher has reached after them; \<open>emitted\<close> is what a subscriber of \<open>onDidChangeFile\<close> has
  received.
\<close>

definition watch ::
  "host \<Rightarrow> (string \<Rightarrow> bool \<Rightarrow> loop_turn list) \<Rightarrow> Uri \<Rightarrow> watch_options \<Rightarrow> watcher" where
  "watch h fs_watch uri options =
     foldl (watch_turn h uri) new_watcher (fs_watch (fsPath uri) (recursive options))"

definition emitted :: "watcher \<Rightarrow> FileChangeEvent list list" where
  "emitted w = map snd (fired w)"

text \<open>The raw notifications among the turns, in the order of arrival.\<close>

fun notifications :: "loop_turn list \<Rightarrow> (string \<times> string) list" where
  "notifications [] = []"
| "notifications (Notified event filename # turns) = (event, filename) # notifications turns"
| "notifications (AccessSettled k disk # turns) = notifications turns"

section \<open>The invariant of a watcher\<close>

text \<open>
  An array fired for notification \<open>k\<close> answers it when it holds the one event the listener
  builds for the \<open>k\<close>-th notification: \<open>Changed\<close> for the event \<open>change\<close>, and otherwise
  \<open>Created\<close> or \<open>Deleted\<close> by the existence of the path on the disk of some turn in which
  the access of \<open>k\<close> settled.
\<close>

definition answers :: "host \<Rightarrow> Uri \<Rightarrow> loop_turn list \<Rightarrow> nat \<Rightarrow> FileChangeEvent list \<Rightarrow> bool" where
  "answers h uri turns k arr \<longleftrightarrow>
     (let event = fst (notifications turns ! k);
          filepath = path_join h (fsPath uri) (normalizeNFC h (snd (notifications turns ! k)))
      in if event = ''change'' then
           arr = [\<lparr>change_type = Changed, change_uri = Uri_with_path uri filepath\<rparr>]
         else (\<exists>disk. AccessSettled k disk \<in> set turns
                \<and> arr = [\<lparr>change_type = (if fs_access disk filepath then Created else Deleted),
                           change_uri = Uri_with_path uri filepath\<rparr>]))"

text \<open>
  After any turns: every notification so far is either suspended or answered, never both
  and never twice; only notifications other than \<open>change\<close> are suspended, each with the
  path of its file; and every fired array answers its notification.
\<close>

definition watch_invariant :: "host \<Rightarrow> Uri \<Rightarrow> loop_turn list \<Rightarrow> watcher \<Rightarrow> bool" where
  "watch_invariant h uri turns w \<longleftrightarrow>
     notified w = length (notifications turns)
     \<and> distinct (map fst (awaiting w) @ map fst (fired w))
     \<and> set (map fst (awaiting w)) \<union> set (map fst (fired w)) = {..<length (notifications turns)}
     \<and> (\<forall>k filepath. (k, filepath) \<in> set (awaiting w) \<longrightarrow>
           fst (notifications turns ! k) \<noteq> ''change''
           \<and> filepath = path_join h (fsPath uri) (normalizeNFC h (snd (notifications turns ! k))))
     \<and> (\<forall>k arr. (k, arr) \<in> set (fired w) \<longrightarrow> answers h uri turns k arr)"

section \<open>Sample inputs\<close>

text \<open>Metadata of a regular file of 100 bytes (mode 0100644) and of a directory (mode 040755).\<close>

definition regular_file_stats :: fs_stats where
  "regular_file_stats =
     \<lparr>st_mode = Some 33188, st_size = Some 100, st_ctime = Some 1000, st_mtime = Some 2000\<rparr>"

definition directory_stats :: fs_stats where
  "directory_stats =
     \<lparr>st_mode = Some 16877, st_size = Some 4096, st_ctime = Some 1000, st_mtime = Some 2000\<rparr>"

text \<open>
  Two orders on strings: \<open>strcmp\<close>, by code units, and a stand-in for the collation of
  \<open>localeCompare\<close>, which compares letters without their case first and puts the lower
  case first among strings that differ in case only.
\<close>

fun compare_keys :: "nat list \<Rightarrow> nat list \<Rightarrow> int" where
  "compare_keys [] [] = 0"
| "compare_keys [] (y # ys) = - 1"
| "compare_keys (x # xs) [] = 1"
| "compare_keys (x # xs) (y # ys) =
     (if x < y then - 1 else if y < x then 1 else compare_keys xs ys)"

definition strcmp :: "string \<Rightarrow> string \<Rightarrow> int" where
  "strcmp s t = compare_keys (map of_char s) (map of_char t)"

definition collation_key :: "char \<Rightarrow> nat" where
  "collation_key c = (if 65 \<le> (of_char c :: nat) \<and> (of_char c :: nat) \<le> 90 then of_char c + 32 else of_char c)"

definition compare_locale :: "string \<Rightarrow> string \<Rightarrow> int" where
  "compare_locale s t =
     (let primary = compare_keys (map collation_key s) (map collation_key t)
      in if primary \<noteq> 0 then primary else strcmp t s)"

text \<open>
  A stand-in for NFC: the letter e followed by the combining acute accent (in UTF-8) becomes
  the precomposed letter.
\<close>

fun compose_acute :: "string \<Rightarrow> string" where
  "compose_acute (a # b # c # later) =
     (if a = CHR ''e'' \<and> b = CHR 0xCC \<and> c = CHR 0x81 then CHR 0xC3 # CHR 0xA9 # compose_acute later
      else a # compose_acute (b # c # later))"
| "compose_acute s = s"

text \<open>
  A Linux host and a macOS host. None of the samples has 64 children, so their
  \<open>sort_merging\<close> is never called.
\<close>

definition posix_host :: host where
  "posix_host =
     \<lparr>platform = ''linux'', normalize_NFC = compose_acute, path_join = (\<lambda>a b. a @ ''/'' @ b),
      localeCompare = compare_locale,
      filesize_number = (\<lambda>n. replicate n (CHR ''#'') @ '' B''),
      sort_merging = (\<lambda>cmp xs. xs)\<rparr>"

definition darwin_host :: host where
  "darwin_host = posix_host\<lparr>platform := ''darwin''\<rparr>"

text \<open>A disk on which nothing exists.\<close>

definition missing_everywhere :: filesystem where
  "missing_everywhere =
     \<lparr>statSync = (\<lambda>p. Inl (OsError (Some ''ENOENT''))),
      fs_readdir = (\<lambda>p. ReaddirError (OsError (Some ''ENOENT''))),
      fs_access = (\<lambda>p. False),
      gzip_fileSync = (\<lambda>p. None),
      fastFolderSize = (\<lambda>p. FolderSizeCallback (Some (OsError (Some ''ENOENT''))) None)\<rparr>"

text \<open>
  The workspace \<open>/w\<close> holding the files \<open>a.txt\<close> and \<open>b.txt\<close> (3 bytes each, 2 bytes
  compressed) and the directory \<open>z\<close>, listed in that order.
\<close>

definition small_file_stats :: fs_stats where
  "small_file_stats =
     \<lparr>st_mode = Some 33188, st_size = Some 3, st_ctime = Some 1000, st_mtime = Some 2000\<rparr>"

definition sample_disk :: filesystem where
  "sample_disk =
     \<lparr>statSync = (\<lambda>p.
        if p = ''/w'' \<or> p = ''/w/z'' then Inr directory_stats
        else if p = ''/w/b.txt'' \<or> p = ''/w/a.txt'' then Inr small_file_stats
        else Inl (OsError (Some ''ENOENT''))),
      fs_readdir = (\<lambda>p.
        if p = ''/w'' then ReaddirOk [''a.txt'', ''b.txt'', ''z'']
        else if p = ''/w/z'' then ReaddirOk []
        else if p = ''/w/b.txt'' \<or> p = ''/w/a.txt'' then ReaddirError (OsError (Some ''ENOTDIR''))
        else ReaddirError (OsError (Some ''ENOENT''))),
      fs_access = (\<lambda>p. p = ''/w'' \<or> p = ''/w/z'' \<or> p = ''/w/b.txt'' \<or> p = ''/w/a.txt''),
      gzip_fileSync = (\<lambda>p. if p = ''/w/b.txt'' \<or> p = ''/w/a.txt'' then Some 2 else None),
      fastFolderSize = (\<lambda>p.
        if p = ''/w'' then FolderSizeCallback None (Some 6)
        else if p = ''/w/z'' then FolderSizeCallback None (Some 4)
        else FolderSizeCallback (Some (OsError (Some ''ENOENT''))) None)\<rparr>"

text \<open>
  The workspace \<open>/w\<close> holding the file \<open>B.txt\<close> and the dangling symbolic link \<open>a\<close>:
  \<open>statSync\<close> follows the link and fails on it. The listing is in the order of \<open>strcmp\<close>,
  upper case first.
\<close>

definition dangling_link_disk :: filesystem where
  "dangling_link_disk =
     \<lparr>statSync = (\<lambda>p.
        if p = ''/w'' then Inr directory_stats
        else if p = ''/w/B.txt'' then Inr small_file_stats
        else Inl (OsError (Some ''ENOENT''))),
      fs_readdir = (\<lambda>p.
        if p = ''/w'' then ReaddirOk [''B.txt'', ''a'']
        else ReaddirError (OsError (Some ''ENOENT''))),
      fs_access = (\<lambda>p. p = ''/w'' \<or> p = ''/w/B.txt''),
      gzip_fileSync = (\<lambda>p. if p = ''/w/B.txt'' then Some 2 else None),
      fastFolderSize = (\<lambda>p.
        if p = ''/w'' then FolderSizeCallback None (Some 3)
        else FolderSizeCallback (Some (OsError (Some ''ENOENT''))) None)\<rparr>"

text \<open>
  The macOS workspace \<open>/w\<close> holding one file, whose name the disk reports with the accent
  decomposed: \<open>cafe\<close> + combining acute + \<open>.txt\<close>.
\<close>

definition decomposed_name :: string where
  "decomposed_name = ''cafe'' @ [CHR 0xCC, CHR 0x81] @ ''.txt''"

definition composed_name :: string where
  "composed_name = ''caf'' @ [CHR 0xC3, CHR 0xA9] @ ''.txt''"

definition accent_disk :: filesystem where
  "accent_disk =
     \<lparr>statSync = (\<lambda>p.
        if p = ''/w'' then Inr directory_stats
        else if p = ''/w/'' @ composed_name \<or> p = ''/w/'' @ decomposed_name then Inr small_file_stats
        else Inl (OsError (Some ''ENOENT''))),
      fs_readdir = (\<lambda>p.
        if p = ''/w'' then ReaddirOk [decomposed_name]
        else ReaddirError (OsError (Some ''ENOENT''))),
      fs_access = (\<lambda>p. p = ''/w'' \<or> p = ''/w/'' @ composed_name \<or> p = ''/w/'' @ decomposed_name),
      gzip_fileSync = (\<lambda>p. None),
      fastFolderSize = (\<lambda>p. FolderSizeCallback None (Some 3))\<rparr>"

text \<open>A disk on which every listing fails, with the given error code.\<close>

definition failing_disk :: "string \<Rightarrow> filesystem" where
  "failing_disk errno = missing_everywhere\<lparr>fs_readdir := (\<lambda>p. ReaddirError (OsError (Some errno)))\<rparr>"



definition forbidden_disk :: filesystem where
  "forbidden_disk = missing_everywhere
     \<lparr>fs_readdir := (\<lambda>p.
        if p = ''/secret'' then ReaddirError (OsError (Some ''EPERM''))
        else ReaddirError (OsError (Some ''ENOENT'')))\<rparr>"

text \<open>
  Three workspace folders: \<open>/w\<close> and \<open>/w/z\<close> on the local disk, and a folder of another
  scheme.
\<close>

definition workspace_w :: WorkspaceFolder where
  "workspace_w = \<lparr>folder_uri = Uri_file ''/w'', folder_name = ''w''\<rparr>"

definition remote_workspace :: WorkspaceFolder where
  "remote_workspace =
     \<lparr>folder_uri = \<lparr>scheme = ''vscode-remote'', uri_path = ''/w/z''\<rparr>, folder_name = ''remote''\<rparr>"

definition workspace_z :: WorkspaceFolder where
  "workspace_z = \<lparr>folder_uri = Uri_file ''/w/z'', folder_name = ''z''\<rparr>"

definition cancelled_token :: CancellationToken where
  "cancelled_token = \<lparr>isCancellationRequested = True\<rparr>"

text \<open>A disk on which \<open>fastFolderSize\<close> throws.\<close>

definition throwing_disk :: filesystem where
  "throwing_disk = missing_everywhere\<lparr>fastFolderSize := (\<lambda>p. FolderSizeThrows)\<rparr>"

text \<open>
  A schedule on the macOS workspace \<open>/w\<close>: the file with the accent is renamed into
  place, \<open>b.txt\<close> changes while the listener of the first notification still awaits its
  \<open>fs.access\<close>, that access settles, \<open>gone.txt\<close> is removed, and its access settles.
\<close>

definition sample_fs_watch :: "string \<Rightarrow> bool \<Rightarrow> loop_turn list" where
  "sample_fs_watch p rec =
     (if p = ''/w'' then
        [Notified ''rename'' decomposed_name,
         Notified ''change'' ''b.txt'',
         AccessSettled 0 accent_disk,
         Notified ''rename'' ''gone.txt'',
         AccessSettled 2 accent_disk]
      else [])"

section \<open>Properties\<close>

lemma mode_constants_distinct:
  "S_IFREG \<noteq> S_IFDIR" "S_IFREG \<noteq> S_IFLNK" "S_IFDIR \<noteq> S_IFLNK"
  "S_IFREG \<noteq> 0" "S_IFDIR \<noteq> 0" "S_IFLNK \<noteq> 0"
  by (simp_all add: S_IFREG_def S_IFDIR_def S_IFLNK_def)

text \<open>
  C9. For every \<open>fs.Stats\<close> record, the descriptor built from it has exactly one of
  \<open>isFile\<close>, \<open>isDirectory\<close>, \<open>isSymbolicLink\<close> true and the matching type tag, or none of them
  true and the type tag \<open>Unknown\<close>; two flags are never true together.
\<close>

theorem FileStat_flags_exclusive:
  "(isFile (new_FileStat s) \<and> \<not> isDirectory (new_FileStat s) \<and> \<not> isSymbolicLink (new_FileStat s)
      \<and> fstype (new_FileStat s) = File)
   \<or> (\<not> isFile (new_FileStat s) \<and> isDirectory (new_FileStat s) \<and> \<not> isSymbolicLink (new_FileStat s)
      \<and> fstype (new_FileStat s) = Directory)
   \<or> (\<not> isFile (new_FileStat s) \<and> \<not> isDirectory (new_FileStat s) \<and> isSymbolicLink (new_FileStat s)
      \<and> fstype (new_FileStat s) = SymbolicLink)
   \<or> (\<not> isFile (new_FileStat s) \<and> \<not> isDirectory (new_FileStat s) \<and> \<not> isSymbolicLink (new_FileStat s)
      \<and> fstype (new_FileStat s) = Unknown)"
  using mode_constants_distinct
  by (auto simp: new_FileStat_def FileStat_type_def FileStat_isFile_def FileStat_isDirectory_def
      FileStat_isSymbolicLink_def Stats_isFile_def Stats_isDirectory_def Stats_isSymbolicLink_def
      checkModeProperty_def)

theorem FileStat_flags_exclusive_witness:
  "isFile (new_FileStat regular_file_stats) \<and> \<not> isDirectory (new_FileStat regular_file_stats)
   \<and> \<not> isSymbolicLink (new_FileStat regular_file_stats)
   \<and> fstype (new_FileStat regular_file_stats) = File"
proof -
  have "isFile (new_FileStat regular_file_stats)"
    by (simp add: new_FileStat_def FileStat_isFile_def Stats_isFile_def checkModeProperty_def
        regular_file_stats_def S_IFMT_def S_IFREG_def)
  with FileStat_flags_exclusive [of regular_file_stats] show ?thesis by blast
qed

subsection \<open>\<open>stat\<close>\<close>

lemma stat_always_resolves:
  "stat fs p = Resolved (case statSync fs p of Inr info \<Rightarrow> info | Inl e \<Rightarrow> new_Stats)"
  by (simp add: stat_def split: sum.splits)

lemma provider_stat_resolves:
  "provider_stat fs p =
     Resolved (new_FileStat (case statSync fs p of Inr info \<Rightarrow> info | Inl e \<Rightarrow> new_Stats))"
  by (simp add: provider_stat_def await_def stat_always_resolves)

lemma new_FileStat_new_Stats:
  "new_FileStat new_Stats =
     \<lparr>fstype = Unknown, isFile = False, isDirectory = False, isSymbolicLink = False,
      fsize = None, ctime = NaN, mtime = NaN\<rparr>"
  by (simp add: new_FileStat_def new_Stats_def FileStat_type_def FileStat_isFile_def
      FileStat_isDirectory_def FileStat_isSymbolicLink_def FileStat_size_def FileStat_ctime_def
      FileStat_mtime_def Stats_isFile_def Stats_isDirectory_def Stats_isSymbolicLink_def
      checkModeProperty_def getTime_def S_IFREG_def S_IFDIR_def S_IFLNK_def)

lemma stat_never_raises:
  "\<exists>d. provider_stat fs p = Resolved d"
  by (simp add: provider_stat_resolves)

lemma stat_failure_descriptor:
  "statSync fs p = Inl e \<Longrightarrow>
   provider_stat fs p =
     Resolved \<lparr>fstype = Unknown, isFile = False, isDirectory = False, isSymbolicLink = False,
               fsize = None, ctime = NaN, mtime = NaN\<rparr>"
  by (simp add: provider_stat_resolves new_FileStat_new_Stats)

text \<open>
  C5 at a failing input. On a disk where \<open>/gone\<close> does not exist, \<open>stat\<close> is resolved, with
  type \<open>Unknown\<close> and the three flags false, but the size it reports is \<open>undefined\<close> and
  both timestamps are \<open>NaN\<close>: the descriptor is not the one with size 0 and timestamps 0.
\<close>

theorem stat_missing_path_not_zero:
  "statSync missing_everywhere ''/gone'' = Inl (OsError (Some ''ENOENT''))
   \<and> provider_stat missing_everywhere ''/gone'' =
     Resolved \<lparr>fstype = Unknown, isFile = False, isDirectory = False, isSymbolicLink = False,
               fsize = None, ctime = NaN, mtime = NaN\<rparr>
   \<and> provider_stat missing_everywhere ''/gone'' \<noteq>
     Resolved \<lparr>fstype = Unknown, isFile = False, isDirectory = False, isSymbolicLink = False,
               fsize = Some 0, ctime = Num 0, mtime = Num 0\<rparr>"
  by (simp add: provider_stat_resolves new_FileStat_new_Stats missing_everywhere_def)

subsection \<open>\<open>readDirectory\<close>\<close>

lemma readDirectory_loop_eq:
  "readDirectory_loop h fs uri children result =
     Resolved (result @ map (\<lambda>child. (child,
        case statSync fs (path_join h (fsPath uri) child) of
          Inl e \<Rightarrow> Unknown | Inr info \<Rightarrow> FileStat_type info)) children)"
proof (induction children arbitrary: result)
  case Nil
  then show ?case by simp
next
  case (Cons child rest)
  have "fstype (new_FileStat (case statSync fs (path_join h (fsPath uri) child) of
            Inr info \<Rightarrow> info | Inl e \<Rightarrow> new_Stats))
        = (case statSync fs (path_join h (fsPath uri) child) of
            Inl e \<Rightarrow> Unknown | Inr info \<Rightarrow> FileStat_type info)"
    by (simp add: new_FileStat_new_Stats split: sum.splits) (simp add: new_FileStat_def)
  then show ?case
    by (simp add: provider_stat_resolves await_def Cons.IH)
qed

lemma readDirectory_listed:
  "fs_readdir fs (fsPath u) = ReaddirOk names \<Longrightarrow>
   readDirectory h fs u =
     Resolved (map (\<lambda>child. (child,
        case statSync fs (path_join h (fsPath u) child) of
          Inl e \<Rightarrow> Unknown | Inr info \<Rightarrow> FileStat_type info)) (normalizeNFC_array h names))"
  by (simp add: readDirectory_def readdir_def handleResult_def await_def readDirectory_loop_eq)

lemma readDirectory_error:
  "fs_readdir fs (fsPath u) = ReaddirError e \<Longrightarrow> platform h \<noteq> ''darwin'' \<Longrightarrow>
   readDirectory h fs u = Rejected (massageError e)"
  by (simp add: readDirectory_def readdir_def handleResult_def await_def)

lemma readDirectory_error_darwin:
  "fs_readdir fs (fsPath u) = ReaddirError e \<Longrightarrow> platform h = ''darwin'' \<Longrightarrow>
   readDirectory h fs u = Pending"
  by (simp add: readDirectory_def readdir_def await_def)

lemma readDirectory_throws:
  "fs_readdir fs (fsPath u) = ReaddirThrows \<Longrightarrow> readDirectory h fs u = Pending"
  by (simp add: readDirectory_def readdir_def handleResult_def await_def)

lemma readDirectory_darwin_pending:
  "readDirectory darwin_host missing_everywhere (Uri_file ''/w'') = Pending"
  by (simp add: readDirectory_error_darwin [where e = "OsError (Some ''ENOENT'')"]
      missing_everywhere_def darwin_host_def posix_host_def)

lemma massageError_FileNotFound:
  "massageError e = FileNotFound \<longleftrightarrow> code e = Some ''ENOENT''"
  by (simp add: massageError_def)

lemma massageError_kinds:
  "code e = Some ''EISDIR'' \<Longrightarrow> massageError e = FileIsADirectory"
  "code e = Some ''EEXIST'' \<Longrightarrow> massageError e = FileExists"
  "code e = Some ''EPERM'' \<or> code e = Some ''EBUSY'' \<Longrightarrow> massageError e = NoPermissions"
  "code e \<notin> {Some ''ENOENT'', Some ''EISDIR'', Some ''EEXIST'', Some ''EPERM'', Some ''EBUSY'',
      Some ''EACCES'', Some ''EACCESS''} \<Longrightarrow> massageError e = Unmassaged e"
  by (auto simp: massageError_def)

text \<open>
  C6, as the code has it. On every platform, when the listing succeeds, every child is
  returned in the order listed (on darwin under its normalised name), and a child whose
  \<open>statSync\<close> fails is tagged \<open>Unknown\<close>. Off darwin, \<open>readDirectory\<close> is rejected if and only
  if the listing of the directory itself reports an error; the rejection is \<open>FileNotFound\<close>
  exactly when the code is \<open>ENOENT\<close>, it is \<open>FileIsADirectory\<close> for \<open>EISDIR\<close>, \<open>FileExists\<close>
  for \<open>EEXIST\<close>, \<open>NoPermissions\<close> for \<open>EPERM\<close> and \<open>EBUSY\<close>, and the error itself for any code
  other than these and the two spellings of the access-denied code, about which nothing is
  stated.
\<close>

theorem readDirectory_failure:
  "(\<forall>names. fs_readdir fs (fsPath u) = ReaddirOk names \<longrightarrow>
      readDirectory h fs u =
        Resolved (map (\<lambda>child. (child,
           case statSync fs (path_join h (fsPath u) child) of
             Inl e \<Rightarrow> Unknown | Inr info \<Rightarrow> FileStat_type info))
         (if platform h \<noteq> ''darwin'' then names else map (normalize_NFC h) names)))
   \<and> (platform h \<noteq> ''darwin'' \<longrightarrow>
        ((\<exists>err. readDirectory h fs u = Rejected err) \<longleftrightarrow>
           (\<exists>e. fs_readdir fs (fsPath u) = ReaddirError e))
      \<and> (readDirectory h fs u = Rejected FileNotFound \<longleftrightarrow>
           (\<exists>e. fs_readdir fs (fsPath u) = ReaddirError e \<and> code e = Some ''ENOENT''))
      \<and> (\<forall>e. fs_readdir fs (fsPath u) = ReaddirError e \<longrightarrow>
           (code e = Some ''EISDIR'' \<longrightarrow> readDirectory h fs u = Rejected FileIsADirectory)
         \<and> (code e = Some ''EEXIST'' \<longrightarrow> readDirectory h fs u = Rejected FileExists)
         \<and> (code e = Some ''EPERM'' \<or> code e = Some ''EBUSY'' \<longrightarrow>
              readDirectory h fs u = Rejected NoPermissions)
         \<and> (code e \<notin> {Some ''ENOENT'', Some ''EISDIR'', Some ''EEXIST'', Some ''EPERM'',
                Some ''EBUSY'', Some ''EACCES'', Some ''EACCESS''} \<longrightarrow>
              readDirectory h fs u = Rejected (Unmassaged e))))"
proof (cases "fs_readdir fs (fsPath u)")
  case ReaddirThrows
  then show ?thesis by (simp add: readDirectory_throws)
next
  case (ReaddirError e)
  have "readDirectory h fs u = Rejected (massageError e)" if "platform h \<noteq> ''darwin''"
    using ReaddirError that by (rule readDirectory_error)
  then show ?thesis
    using ReaddirError massageError_FileNotFound [of e] massageError_kinds [of e]
    by auto
next
  case (ReaddirOk names)
  then show ?thesis
    by (simp add: readDirectory_listed normalizeNFC_array_def)
qed

lemma sample_types:
  "FileStat_type small_file_stats = File" "FileStat_type directory_stats = Directory"
  by (simp_all add: FileStat_type_def Stats_isFile_def Stats_isDirectory_def
      checkModeProperty_def small_file_stats_def directory_stats_def S_IFMT_def S_IFREG_def
      S_IFDIR_def)

lemma compose_decomposed_name: "compose_acute decomposed_name = composed_name"
  by (simp add: decomposed_name_def composed_name_def)

lemma sample_platforms:
  "platform posix_host \<noteq> ''darwin''" "platform darwin_host = ''darwin''"
  "normalize_NFC darwin_host = compose_acute"
  "path_join posix_host a b = a @ ''/'' @ b" "path_join darwin_host a b = a @ ''/'' @ b"
  by (simp_all add: posix_host_def darwin_host_def)

lemma failing_disk_listing:
  "fs_readdir (failing_disk errno) (fsPath (Uri_file ''/w'')) = ReaddirError (OsError (Some errno))"
  by (simp add: failing_disk_def missing_everywhere_def)

theorem readDirectory_failure_witness:
  "readDirectory posix_host dangling_link_disk (Uri_file ''/w'')
     = Resolved [(''B.txt'', File), (''a'', Unknown)]
   \<and> readDirectory darwin_host accent_disk (Uri_file ''/w'') = Resolved [(composed_name, File)]
   \<and> readDirectory posix_host (failing_disk ''ENOENT'') (Uri_file ''/w'') = Rejected FileNotFound
   \<and> readDirectory posix_host (failing_disk ''EISDIR'') (Uri_file ''/w'') = Rejected FileIsADirectory
   \<and> readDirectory posix_host (failing_disk ''EEXIST'') (Uri_file ''/w'') = Rejected FileExists
   \<and> readDirectory posix_host (failing_disk ''EBUSY'') (Uri_file ''/w'') = Rejected NoPermissions
   \<and> readDirectory posix_host (failing_disk ''ENOTDIR'') (Uri_file ''/w'')
     = Rejected (Unmassaged (OsError (Some ''ENOTDIR'')))"
proof -
  have dangling: "fs_readdir dangling_link_disk (fsPath (Uri_file ''/w'')) = ReaddirOk [''B.txt'', ''a'']"
    by (simp add: dangling_link_disk_def fsPath_def Uri_file_def)
  have accent: "fs_readdir accent_disk (fsPath (Uri_file ''/w'')) = ReaddirOk [decomposed_name]"
    by (simp add: accent_disk_def fsPath_def Uri_file_def)
  have "readDirectory posix_host dangling_link_disk (Uri_file ''/w'')
     = Resolved (map (\<lambda>child. (child,
           case statSync dangling_link_disk (path_join posix_host (fsPath (Uri_file ''/w'')) child) of
             Inl e \<Rightarrow> Unknown | Inr info \<Rightarrow> FileStat_type info)) [''B.txt'', ''a''])"
    using readDirectory_failure [where fs = dangling_link_disk and u = "Uri_file ''/w''"
        and h = posix_host] dangling sample_platforms(1)
    by simp
  then have ok: "readDirectory posix_host dangling_link_disk (Uri_file ''/w'')
     = Resolved [(''B.txt'', File), (''a'', Unknown)]"
    by (simp add: sample_platforms dangling_link_disk_def fsPath_def Uri_file_def sample_types)
  have "readDirectory darwin_host accent_disk (Uri_file ''/w'')
     = Resolved (map (\<lambda>child. (child,
           case statSync accent_disk (path_join darwin_host (fsPath (Uri_file ''/w'')) child) of
             Inl e \<Rightarrow> Unknown | Inr info \<Rightarrow> FileStat_type info)) [compose_acute decomposed_name])"
    using readDirectory_failure [where fs = accent_disk and u = "Uri_file ''/w''"
        and h = darwin_host] accent sample_platforms(2,3)
    by simp
  then have mac: "readDirectory darwin_host accent_disk (Uri_file ''/w'')
     = Resolved [(composed_name, File)]"
    by (simp add: compose_decomposed_name sample_platforms accent_disk_def fsPath_def Uri_file_def
        sample_types)
  note failure = readDirectory_failure [where u = "Uri_file ''/w''" and h = posix_host]
  have e1: "readDirectory posix_host (failing_disk ''ENOENT'') (Uri_file ''/w'') = Rejected FileNotFound"
    using failure [where fs = "failing_disk ''ENOENT''"] sample_platforms(1)
    by (simp add: failing_disk_listing)
  have e2: "readDirectory posix_host (failing_disk ''EISDIR'') (Uri_file ''/w'') = Rejected FileIsADirectory"
    using failure [where fs = "failing_disk ''EISDIR''"] sample_platforms(1)
    by (simp add: failing_disk_listing)
  have e3: "readDirectory posix_host (failing_disk ''EEXIST'') (Uri_file ''/w'') = Rejected FileExists"
    using failure [where fs = "failing_disk ''EEXIST''"] sample_platforms(1)
    by (simp add: failing_disk_listing)
  have e4: "readDirectory posix_host (failing_disk ''EBUSY'') (Uri_file ''/w'') = Rejected NoPermissions"
    using failure [where fs = "failing_disk ''EBUSY''"] sample_platforms(1)
    by (simp add: failing_disk_listing)
  have e5: "readDirectory posix_host (failing_disk ''ENOTDIR'') (Uri_file ''/w'')
     = Rejected (Unmassaged (OsError (Some ''ENOTDIR'')))"
    using failure [where fs = "failing_disk ''ENOTDIR''"] sample_platforms(1)
    by (simp add: failing_disk_listing)
  from ok mac e1 e2 e3 e4 e5 show ?thesis by blast
qed

text \<open>
  C6 as stated fails: listing \<open>/secret\<close> fails with \<open>EPERM\<close>, and \<open>readDirectory\<close> is
  rejected with \<open>NoPermissions\<close>, not with \<open>FileNotFound\<close>.
\<close>

theorem readDirectory_not_always_NotFound:
  "fs_readdir (failing_disk ''EPERM'') (fsPath (Uri_file ''/secret''))
     = ReaddirError (OsError (Some ''EPERM''))
   \<and> readDirectory posix_host (failing_disk ''EPERM'') (Uri_file ''/secret'') = Rejected NoPermissions
   \<and> readDirectory posix_host (failing_disk ''EPERM'') (Uri_file ''/secret'') \<noteq> Rejected FileNotFound"
  by (simp add: readDirectory_def readdir_def handleResult_def await_def massageError_def
      failing_disk_def missing_everywhere_def posix_host_def fsPath_def Uri_file_def)

subsection \<open>\<open>watch\<close>\<close>

lemma notifications_append:
  "notifications (xs @ ys) = notifications xs @ notifications ys"
  by (induction xs rule: notifications.induct) simp_all

lemma answers_later:
  assumes "answers h uri turns k arr" "k < length (notifications turns)"
  shows "answers h uri (turns @ [t]) k arr"
  using assms by (auto simp: answers_def Let_def notifications_append nth_append split: if_splits)

lemma watch_invariant_new: "watch_invariant h uri [] new_watcher"
  by (simp add: watch_invariant_def new_watcher_def)

lemma watch_invariant_listener:
  assumes inv: "watch_invariant h uri turns w"
  shows "watch_invariant h uri (turns @ [Notified event filename]) (watch_listener h uri w event filename)"
proof -
  let ?n = "length (notifications turns)"
  let ?turns = "turns @ [Notified event filename]"
  let ?fp = "path_join h (fsPath uri) (normalizeNFC h filename)"
  from inv have n: "notified w = ?n"
    and dist: "distinct (map fst (awaiting w) @ map fst (fired w))"
    and all: "set (map fst (awaiting w)) \<union> set (map fst (fired w)) = {..<?n}"
    and aw: "\<And>k filepath. (k, filepath) \<in> set (awaiting w) \<Longrightarrow>
           fst (notifications turns ! k) \<noteq> ''change''
           \<and> filepath = path_join h (fsPath uri) (normalizeNFC h (snd (notifications turns ! k)))"
    and fi: "\<And>k arr. (k, arr) \<in> set (fired w) \<Longrightarrow> answers h uri turns k arr"
    by (simp_all add: watch_invariant_def)
  have nots: "notifications ?turns = notifications turns @ [(event, filename)]"
    by (simp add: notifications_append)
  have fresh: "?n \<notin> set (map fst (awaiting w))" "?n \<notin> set (map fst (fired w))"
    using all by auto
  have below_aw: "k < ?n" if "(k, filepath) \<in> set (awaiting w)" for k filepath
    using that all by force
  have below_fi: "k < ?n" if "(k, arr) \<in> set (fired w)" for k arr
    using that all by force
  have old_aw: "fst (notifications ?turns ! k) \<noteq> ''change''
      \<and> filepath = path_join h (fsPath uri) (normalizeNFC h (snd (notifications ?turns ! k)))"
    if "(k, filepath) \<in> set (awaiting w)" for k filepath
    using aw [OF that] below_aw [OF that] by (simp add: nots nth_append)
  have old_fi: "answers h uri ?turns k arr" if "(k, arr) \<in> set (fired w)" for k arr
    using fi [OF that] below_fi [OF that] by (rule answers_later)
  show ?thesis
  proof (cases "event = ''change''")
    case True
    have new: "answers h uri ?turns ?n
        [\<lparr>change_type = Changed, change_uri = Uri_with_path uri ?fp\<rparr>]"
      by (simp add: answers_def Let_def notifications_append True)
    show ?thesis
      unfolding watch_invariant_def
      using True n dist all fresh old_aw old_fi new
      by (auto simp: watch_listener_def Let_def notifications_append lessThan_Suc)
  next
    case False
    show ?thesis
      unfolding watch_invariant_def
      using False n dist all fresh old_aw old_fi
      by (auto simp: watch_listener_def Let_def notifications_append lessThan_Suc)
  qed
qed

lemma watch_invariant_resume:
  assumes inv: "watch_invariant h uri turns w"
  shows "watch_invariant h uri (turns @ [AccessSettled k disk]) (watch_resume uri w k disk)"
proof -
  let ?n = "length (notifications turns)"
  let ?turns = "turns @ [AccessSettled k disk]"
  from inv have n: "notified w = ?n"
    and dist: "distinct (map fst (awaiting w) @ map fst (fired w))"
    and all: "set (map fst (awaiting w)) \<union> set (map fst (fired w)) = {..<?n}"
    and aw: "\<And>j filepath. (j, filepath) \<in> set (awaiting w) \<Longrightarrow>
           fst (notifications turns ! j) \<noteq> ''change''
           \<and> filepath = path_join h (fsPath uri) (normalizeNFC h (snd (notifications turns ! j)))"
    and fi: "\<And>j arr. (j, arr) \<in> set (fired w) \<Longrightarrow> answers h uri turns j arr"
    by (simp_all add: watch_invariant_def)
  have nots: "notifications ?turns = notifications turns"
    by (simp add: notifications_append)
  have below_fi: "j < ?n" if "(j, arr) \<in> set (fired w)" for j arr
    using that all by force
  have old_fi: "answers h uri ?turns j arr" if "(j, arr) \<in> set (fired w)" for j arr
    using fi [OF that] below_fi [OF that] by (rule answers_later)
  show ?thesis
  proof (cases "map_of (awaiting w) k")
    case None
    then have same: "watch_resume uri w k disk = w"
      by (simp add: watch_resume_def)
    show ?thesis
      unfolding watch_invariant_def same nots
      using n dist all aw old_fi by (auto simp: nots)
  next
    case (Some filepath)
    then have mem: "(k, filepath) \<in> set (awaiting w)"
      by (rule map_of_SomeD)
    let ?rest = "filter (\<lambda>suspended. fst suspended \<noteq> k) (awaiting w)"
    let ?arr = "[\<lparr>change_type = (if path_exists disk filepath then Created else Deleted),
                  change_uri = Uri_with_path uri filepath\<rparr>]"
    have resumed: "watch_resume uri w k disk =
        w\<lparr>awaiting := ?rest, fired := fired w @ [(k, ?arr)]\<rparr>"
      using Some by (simp add: watch_resume_def)
    have k_aw: "k \<in> set (map fst (awaiting w))"
      using mem by force
    have k_not_fired: "k \<notin> set (map fst (fired w))"
      using dist k_aw by auto
    have rest_keys: "set (map fst ?rest) = set (map fst (awaiting w)) - {k}"
      by auto
    have dist_rest: "distinct (map fst ?rest)"
      using dist by (simp add: distinct_map_filter)
    have dist': "distinct (map fst ?rest @ map fst (fired w @ [(k, ?arr)]))"
      using dist dist_rest k_not_fired rest_keys by auto
    have all': "set (map fst ?rest) \<union> set (map fst (fired w @ [(k, ?arr)])) = {..<?n}"
      using all k_aw rest_keys by auto
    have new: "answers h uri ?turns k ?arr"
      using aw [OF mem] by (auto simp: answers_def Let_def nots path_exists_def)
    have aw': "fst (notifications ?turns ! j) \<noteq> ''change''
        \<and> fp = path_join h (fsPath uri) (normalizeNFC h (snd (notifications ?turns ! j)))"
      if "(j, fp) \<in> set ?rest" for j fp
      using that aw [of j fp] by (simp add: nots)
    have fi': "answers h uri ?turns j arr" if "(j, arr) \<in> set (fired w @ [(k, ?arr)])" for j arr
      using that old_fi new by auto
    show ?thesis
      unfolding watch_invariant_def resumed
      using n dist' all' aw' fi' by (simp add: nots) blast
  qed
qed

lemma watch_invariant_turn:
  "watch_invariant h uri turns w \<Longrightarrow> watch_invariant h uri (turns @ [t]) (watch_turn h uri w t)"
  by (cases t) (simp_all add: watch_invariant_listener watch_invariant_resume)

lemma watch_invariant_run:
  "watch_invariant h uri turns (foldl (watch_turn h uri) new_watcher turns)"
proof (induction turns rule: rev_induct)
  case Nil
  then show ?case by (simp add: watch_invariant_new)
next
  case (snoc t turns)
  then show ?case by (simp add: watch_invariant_turn)
qed

lemma fired_grows_turn: "set (fired w) \<subseteq> set (fired (watch_turn h uri w t))"
  by (cases t) (auto simp: watch_listener_def watch_resume_def Let_def split: option.splits)

lemma fired_grows_run:
  "set (fired w) \<subseteq> set (fired (foldl (watch_turn h uri) w turns))"
proof (induction turns arbitrary: w)
  case Nil
  then show ?case by simp
next
  case (Cons t turns)
  have "set (fired w) \<subseteq> set (fired (watch_turn h uri w t))"
    by (rule fired_grows_turn)
  also have "\<dots> \<subseteq> set (fired (foldl (watch_turn h uri) (watch_turn h uri w t) turns))"
    by (rule Cons.IH)
  finally show ?case by simp
qed

lemma settled_is_fired:
  assumes "turns = pre @ AccessSettled k disk # post" "k < length (notifications pre)"
  shows "k \<in> fst ` set (fired (foldl (watch_turn h uri) new_watcher turns))"
proof -
  let ?w = "foldl (watch_turn h uri) new_watcher pre"
  have inv: "watch_invariant h uri pre ?w"
    by (rule watch_invariant_run)
  then have keys: "set (map fst (awaiting ?w)) \<union> set (map fst (fired ?w)) = {..<length (notifications pre)}"
    by (simp add: watch_invariant_def)
  with assms(2) have "k \<in> set (map fst (awaiting ?w)) \<or> k \<in> set (map fst (fired ?w))"
    by blast
  then have "k \<in> fst ` set (fired (watch_resume uri ?w k disk))"
  proof
    assume "k \<in> set (map fst (awaiting ?w))"
    then obtain filepath where "map_of (awaiting ?w) k = Some filepath"
      by (metis map_of_eq_None_iff not_Some_eq set_map)
    then show ?thesis
      by (simp add: watch_resume_def)
  next
    assume "k \<in> set (map fst (fired ?w))"
    then show ?thesis
      by (auto simp: watch_resume_def split: option.splits)
  qed
  moreover have "set (fired (watch_resume uri ?w k disk))
      \<subseteq> set (fired (foldl (watch_turn h uri) (watch_resume uri ?w k disk) post))"
    by (rule fired_grows_run)
  ultimately show ?thesis
    using assms(1) by auto
qed

text \<open>
  C4. After any turns of the event loop: every array fired answers one raw notification
  and holds exactly one event, for the path joined from the watched directory and the file
  name (normalised on darwin, unchanged elsewhere); the event is \<open>Changed\<close> when the raw kind
  is \<open>change\<close>, and otherwise \<open>Created\<close> or \<open>Deleted\<close> by the existence of the path on the disk
  as it is when the access of that notification settles. No notification is answered
  twice; every \<open>change\<close> notification is answered, and every other notification is
  answered once its access has settled.
\<close>

theorem watch_event_kinds:
  assumes "turns = fs_watch (fsPath uri) (recursive options)"
    and "w = watch h fs_watch uri options"
  shows "(\<forall>k arr. (k, arr) \<in> set (fired w) \<longrightarrow>
            k < length (notifications turns)
          \<and> (\<exists>kind. arr =
                [\<lparr>change_type = kind,
                   change_uri = Uri_with_path uri (path_join h (fsPath uri)
                     (if platform h \<noteq> ''darwin'' then snd (notifications turns ! k)
                      else normalize_NFC h (snd (notifications turns ! k))))\<rparr>]
              \<and> (fst (notifications turns ! k) = ''change'' \<longrightarrow> kind = Changed)
              \<and> (fst (notifications turns ! k) \<noteq> ''change'' \<longrightarrow>
                   (\<exists>disk. AccessSettled k disk \<in> set turns
                      \<and> kind = (if fs_access disk (path_join h (fsPath uri)
                            (if platform h \<noteq> ''darwin'' then snd (notifications turns ! k)
                             else normalize_NFC h (snd (notifications turns ! k))))
                          then Created else Deleted)))))
     \<and> distinct (map fst (fired w))
     \<and> (\<forall>k < length (notifications turns).
           fst (notifications turns ! k) = ''change'' \<longrightarrow> k \<in> fst ` set (fired w))
     \<and> (\<forall>pre k disk post.
           turns = pre @ AccessSettled k disk # post \<and> k < length (notifications pre) \<longrightarrow>
           k \<in> fst ` set (fired w))"
proof -
  have w: "w = foldl (watch_turn h uri) new_watcher turns"
    using assms by (simp add: watch_def)
  have inv: "watch_invariant h uri turns w"
    unfolding w by (rule watch_invariant_run)
  then have dist: "distinct (map fst (awaiting w) @ map fst (fired w))"
    and all: "set (map fst (awaiting w)) \<union> set (map fst (fired w)) = {..<length (notifications turns)}"
    and aw: "\<And>k filepath. (k, filepath) \<in> set (awaiting w) \<Longrightarrow>
           fst (notifications turns ! k) \<noteq> ''change''"
    and fi: "\<And>k arr. (k, arr) \<in> set (fired w) \<Longrightarrow> answers h uri turns k arr"
    by (simp_all add: watch_invariant_def)
  have one: "k < length (notifications turns)
          \<and> (\<exists>kind. arr =
                [\<lparr>change_type = kind,
                   change_uri = Uri_with_path uri (path_join h (fsPath uri)
                     (if platform h \<noteq> ''darwin'' then snd (notifications turns ! k)
                      else normalize_NFC h (snd (notifications turns ! k))))\<rparr>]
              \<and> (fst (notifications turns ! k) = ''change'' \<longrightarrow> kind = Changed)
              \<and> (fst (notifications turns ! k) \<noteq> ''change'' \<longrightarrow>
                   (\<exists>disk. AccessSettled k disk \<in> set turns
                      \<and> kind = (if fs_access disk (path_join h (fsPath uri)
                            (if platform h \<noteq> ''darwin'' then snd (notifications turns ! k)
                             else normalize_NFC h (snd (notifications turns ! k))))
                          then Created else Deleted))))"
    if "(k, arr) \<in> set (fired w)" for k arr
  proof -
    from that all have "k < length (notifications turns)" by force
    moreover from fi [OF that] have "\<exists>kind. arr =
                [\<lparr>change_type = kind,
                   change_uri = Uri_with_path uri (path_join h (fsPath uri)
                     (if platform h \<noteq> ''darwin'' then snd (notifications turns ! k)
                      else normalize_NFC h (snd (notifications turns ! k))))\<rparr>]
              \<and> (fst (notifications turns ! k) = ''change'' \<longrightarrow> kind = Changed)
              \<and> (fst (notifications turns ! k) \<noteq> ''change'' \<longrightarrow>
                   (\<exists>disk. AccessSettled k disk \<in> set turns
                      \<and> kind = (if fs_access disk (path_join h (fsPath uri)
                            (if platform h \<noteq> ''darwin'' then snd (notifications turns ! k)
                             else normalize_NFC h (snd (notifications turns ! k))))
                          then Created else Deleted)))"
      by (cases "fst (notifications turns ! k) = ''change''")
        (auto simp: answers_def Let_def normalizeNFC_def)
    ultimately show ?thesis by blast
  qed
  have two: "distinct (map fst (fired w))"
    using dist by simp
  have three: "k \<in> fst ` set (fired w)"
    if "k < length (notifications turns)" "fst (notifications turns ! k) = ''change''" for k
  proof -
    from that(1) all have "k \<in> set (map fst (awaiting w)) \<or> k \<in> set (map fst (fired w))"
      by blast
    moreover have "k \<notin> set (map fst (awaiting w))"
      using aw that(2) by force
    ultimately show ?thesis by simp
  qed
  have four: "k \<in> fst ` set (fired w)"
    if "turns = pre @ AccessSettled k disk # post" "k < length (notifications pre)"
    for pre k disk post
    unfolding w using that by (rule settled_is_fired)
  from one two three four show ?thesis by blast
qed

text \<open>
  C10. Two subscriptions on the same uri with the same \<open>recursive\<close> flag reach the same
  state, with the same arrays fired in the same order, whatever their \<open>excludes\<close> lists are;
  and every raw notification is either answered or still awaits its access: none is
  filtered out.
\<close>

theorem watch_ignores_excludes:
  assumes "recursive opts1 = recursive opts2"
  shows "watch h fs_watch uri opts1 = watch h fs_watch uri opts2
    \<and> length (fired (watch h fs_watch uri opts1)) + length (awaiting (watch h fs_watch uri opts1))
        = length (notifications (fs_watch (fsPath uri) (recursive opts1)))"
proof -
  let ?turns = "fs_watch (fsPath uri) (recursive opts1)"
  let ?w = "watch h fs_watch uri opts1"
  have "watch_invariant h uri ?turns ?w"
    unfolding watch_def by (rule watch_invariant_run)
  then have dist: "distinct (map fst (awaiting ?w) @ map fst (fired ?w))"
    and all: "set (map fst (awaiting ?w)) \<union> set (map fst (fired ?w)) = {..<length (notifications ?turns)}"
    by (simp_all add: watch_invariant_def)
  have "length (map fst (awaiting ?w) @ map fst (fired ?w))
      = card (set (map fst (awaiting ?w) @ map fst (fired ?w)))"
    using dist by (rule distinct_card [symmetric])
  also have "\<dots> = card {..<length (notifications ?turns)}"
    using all by simp
  finally have "length (fired ?w) + length (awaiting ?w) = length (notifications ?turns)"
    by simp
  moreover have "watch h fs_watch uri opts1 = watch h fs_watch uri opts2"
    using assms by (simp add: watch_def)
  ultimately show ?thesis by blast
qed

lemma sample_turns:
  "sample_fs_watch (fsPath (Uri_file ''/w'')) b =
     [Notified ''rename'' decomposed_name, Notified ''change'' ''b.txt'',
      AccessSettled 0 accent_disk, Notified ''rename'' ''gone.txt'', AccessSettled 2 accent_disk]"
  by (simp add: sample_fs_watch_def fsPath_def Uri_file_def)

lemma darwin_paths:
  "path_join darwin_host (fsPath (Uri_file ''/w'')) (normalizeNFC darwin_host decomposed_name)
     = ''/w/'' @ composed_name"
  "path_join darwin_host (fsPath (Uri_file ''/w'')) (normalizeNFC darwin_host ''b.txt'') = ''/w/b.txt''"
  "path_join darwin_host (fsPath (Uri_file ''/w'')) (normalizeNFC darwin_host ''gone.txt'') = ''/w/gone.txt''"
  by (simp_all add: sample_platforms normalizeNFC_def compose_decomposed_name fsPath_def Uri_file_def)

lemma accent_disk_access:
  "path_exists accent_disk (''/w/'' @ composed_name)" "\<not> path_exists accent_disk ''/w/gone.txt''"
  by (simp_all add: path_exists_def accent_disk_def composed_name_def decomposed_name_def)

lemma Uri_with_path_file: "Uri_with_path (Uri_file a) p = Uri_file p"
  by (simp add: Uri_with_path_def Uri_file_def)

lemma sample_watcher:
  "watch darwin_host sample_fs_watch (Uri_file ''/w'') \<lparr>recursive = b, excludes = xs\<rparr> =
     \<lparr>notified = 3, awaiting = [],
      fired =
        [(1, [\<lparr>change_type = Changed, change_uri = Uri_file ''/w/b.txt''\<rparr>]),
         (0, [\<lparr>change_type = Created, change_uri = Uri_file (''/w/'' @ composed_name)\<rparr>]),
         (2, [\<lparr>change_type = Deleted, change_uri = Uri_file ''/w/gone.txt''\<rparr>])]\<rparr>"
  unfolding watch_def sample_turns
  by (simp add: watch_listener_def watch_resume_def Let_def darwin_paths
      accent_disk_access [simplified] new_watcher_def Uri_with_path_file eval_nat_numeral)

theorem watch_event_kinds_witness:
  "notifications (sample_fs_watch (fsPath (Uri_file ''/w'')) True)
     = [(''rename'', decomposed_name), (''change'', ''b.txt''), (''rename'', ''gone.txt'')]
   \<and> emitted (watch darwin_host sample_fs_watch (Uri_file ''/w'') \<lparr>recursive = True, excludes = []\<rparr>)
     = [[\<lparr>change_type = Changed, change_uri = Uri_file ''/w/b.txt''\<rparr>],
        [\<lparr>change_type = Created, change_uri = Uri_file (''/w/'' @ composed_name)\<rparr>],
        [\<lparr>change_type = Deleted, change_uri = Uri_file ''/w/gone.txt''\<rparr>]]
   \<and> awaiting (watch darwin_host sample_fs_watch (Uri_file ''/w'') \<lparr>recursive = True, excludes = []\<rparr>)
     = []
   \<and> distinct (map fst (fired
        (watch darwin_host sample_fs_watch (Uri_file ''/w'') \<lparr>recursive = True, excludes = []\<rparr>)))
   \<and> {0, 1, 2} \<subseteq> fst ` set (fired
        (watch darwin_host sample_fs_watch (Uri_file ''/w'') \<lparr>recursive = True, excludes = []\<rparr>))"
proof -
  let ?opts = "\<lparr>recursive = True, excludes = []\<rparr>"
  let ?turns = "sample_fs_watch (fsPath (Uri_file ''/w'')) (recursive ?opts)"
  let ?w = "watch darwin_host sample_fs_watch (Uri_file ''/w'') ?opts"
  note kinds = watch_event_kinds [where fs_watch = sample_fs_watch and uri = "Uri_file ''/w''"
      and options = ?opts and h = darwin_host, OF refl refl]
  have nots: "notifications ?turns
     = [(''rename'', decomposed_name), (''change'', ''b.txt''), (''rename'', ''gone.txt'')]"
    by (simp add: sample_turns)
  have dist: "distinct (map fst (fired ?w))"
    using kinds by blast
  have changed: "1 \<in> fst ` set (fired ?w)"
  proof -
    have "1 < length (notifications ?turns)" "fst (notifications ?turns ! 1) = ''change''"
      by (simp_all add: sample_turns)
    with kinds show ?thesis by blast
  qed
  have created: "0 \<in> fst ` set (fired ?w)"
  proof -
    have "?turns = [Notified ''rename'' decomposed_name, Notified ''change'' ''b.txt'']
        @ AccessSettled 0 accent_disk # [Notified ''rename'' ''gone.txt'', AccessSettled 2 accent_disk]"
      "0 < length (notifications [Notified ''rename'' decomposed_name, Notified ''change'' ''b.txt''])"
      by (simp_all add: sample_turns)
    with kinds show ?thesis by blast
  qed
  have deleted: "2 \<in> fst ` set (fired ?w)"
  proof -
    have "?turns = [Notified ''rename'' decomposed_name, Notified ''change'' ''b.txt'',
          AccessSettled 0 accent_disk, Notified ''rename'' ''gone.txt'']
        @ AccessSettled 2 accent_disk # []"
      "2 < length (notifications [Notified ''rename'' decomposed_name, Notified ''change'' ''b.txt'',
          AccessSettled 0 accent_disk, Notified ''rename'' ''gone.txt''])"
      by (simp_all add: sample_turns)
    with kinds show ?thesis by blast
  qed
  have "emitted ?w
     = [[\<lparr>change_type = Changed, change_uri = Uri_file ''/w/b.txt''\<rparr>],
        [\<lparr>change_type = Created, change_uri = Uri_file (''/w/'' @ composed_name)\<rparr>],
        [\<lparr>change_type = Deleted, change_uri = Uri_file ''/w/gone.txt''\<rparr>]]"
    "awaiting ?w = []"
    by (simp_all add: sample_watcher emitted_def)
  with nots dist changed created deleted show ?thesis by simp
qed

theorem watch_ignores_excludes_witness:
  "watch darwin_host sample_fs_watch (Uri_file ''/w'') \<lparr>recursive = False, excludes = []\<rparr>
     = watch darwin_host sample_fs_watch (Uri_file ''/w'')
         \<lparr>recursive = False, excludes = [''**/*.txt'', ''gone.txt'']\<rparr>
   \<and> length (fired (watch darwin_host sample_fs_watch (Uri_file ''/w'')
         \<lparr>recursive = False, excludes = [''**/*.txt'', ''gone.txt'']\<rparr>)) = 3
   \<and> length (notifications (sample_fs_watch (fsPath (Uri_file ''/w'')) False)) = 3"
proof -
  have same: "recursive \<lparr>recursive = False, excludes = []\<rparr>
      = recursive \<lparr>recursive = False, excludes = [''**/*.txt'', ''gone.txt'']\<rparr>"
    by simp
  have three: "length (notifications (sample_fs_watch (fsPath (Uri_file ''/w'')) False)) = 3"
    by (simp add: sample_turns)
  have fired3: "length (fired (watch darwin_host sample_fs_watch (Uri_file ''/w'')
         \<lparr>recursive = False, excludes = [''**/*.txt'', ''gone.txt'']\<rparr>)) = 3"
    by (simp add: sample_watcher)
  from watch_ignores_excludes [OF same, of darwin_host sample_fs_watch "Uri_file ''/w''"]
  have "watch darwin_host sample_fs_watch (Uri_file ''/w'') \<lparr>recursive = False, excludes = []\<rparr>
     = watch darwin_host sample_fs_watch (Uri_file ''/w'')
         \<lparr>recursive = False, excludes = [''**/*.txt'', ''gone.txt'']\<rparr>"
    by blast
  with three fired3 show ?thesis by blast
qed

subsection \<open>\<open>getTreeItem\<close> and the sizes\<close>

lemma getTreeItem_File:
  assumes "entry_type element = File"
  shows "getTreeItem h fs element =
     (case (case statSync fs (fsPath (entry_uri element)) of
              Inr info \<Rightarrow> st_size info | Inl e \<Rightarrow> None) of
        None \<Rightarrow> Rejected TypeError
      | Some n \<Rightarrow>
          Resolved \<lparr>resourceUri = entry_uri element, collapsibleState = CollapsibleNone,
                    command = Some \<lparr>cmd_command = ''fileExplorer.openFile'',
                                     cmd_title = ''Open File'',
                                     cmd_arguments = [entry_uri element]\<rparr>,
                    contextValue = Some ''file'',
                    description = Some ('' -  '' @ filesize_number h n @ '' - (''
                      @ filesize_number h (getGzipSize fs (fsPath (entry_uri element))) @ '')'')\<rparr>)"
proof -
  have "fsize (new_FileStat (case statSync fs p of Inr info \<Rightarrow> info | Inl e \<Rightarrow> new_Stats))
      = (case statSync fs p of Inr info \<Rightarrow> st_size info | Inl e \<Rightarrow> None)" for p
    by (simp add: new_FileStat_def FileStat_size_def new_Stats_def split: sum.splits)
  then show ?thesis
    using assms
    by (simp add: getTreeItem_def Let_def provider_stat_resolves filesize_def new_TreeItem_def
        split: option.splits)
qed

lemma getTreeItem_Directory:
  assumes "entry_type element = Directory"
  shows "getTreeItem h fs element =
     (case (case fastFolderSize fs (fsPath (entry_uri element)) of
              FolderSizeThrows \<Rightarrow> Some 0 | FolderSizeCallback err result \<Rightarrow> result) of
        None \<Rightarrow> Rejected TypeError
      | Some n \<Rightarrow>
          Resolved \<lparr>resourceUri = entry_uri element, collapsibleState = Collapsed,
                    command = None, contextValue = None,
                    description = Some ('' - '' @ filesize_number h n)\<rparr>)"
  using assms
  by (simp add: getTreeItem_def Let_def getDirSize_def await_def filesize_def new_TreeItem_def
      split: option.splits folder_size_outcome.splits)




text \<open>
  C7, as the code has it. \<open>checkCancellation\<close> raises the cancellation error exactly when
  the token asks for cancellation, but neither \<open>_getDirSize\<close> nor \<open>getTreeItem\<close> takes a
  token: \<open>_getDirSize\<close> is resolved with the result of the callback of \<open>fastFolderSize\<close>, or
  with 0 when \<open>fastFolderSize\<close> throws, and neither of the two is ever rejected with the
  cancellation error.
\<close>

theorem cancellation_never_checked:
  "(checkCancellation token = Inl OperationCancelled \<longleftrightarrow> isCancellationRequested token)
   \<and> (\<forall>err result. fastFolderSize fs p = FolderSizeCallback err result \<longrightarrow>
         getDirSize fs p = Resolved result)
   \<and> (fastFolderSize fs p = FolderSizeThrows \<longrightarrow> getDirSize fs p = Resolved (Some 0))
   \<and> getDirSize fs p \<noteq> Rejected OperationCancelled
   \<and> getTreeItem h fs element \<noteq> Rejected OperationCancelled"
proof -
  have f: "filesize h v \<noteq> Inl OperationCancelled" for v
    by (simp add: filesize_def split: option.splits)
  have d: "\<exists>n. getDirSize fs q = Resolved n" for q
    by (simp add: getDirSize_def split: folder_size_outcome.splits)
  have "getTreeItem h fs element \<noteq> Rejected OperationCancelled"
    using f d [of "fsPath (entry_uri element)"]
    by (auto simp: getTreeItem_def Let_def await_def provider_stat_resolves filesize_def
        split: sum.splits option.splits promise.splits)
  moreover have "getDirSize fs p \<noteq> Rejected OperationCancelled"
    using d [of p] by auto
  ultimately show ?thesis
    by (simp add: checkCancellation_def getDirSize_def)
qed

theorem cancellation_never_checked_witness:
  "checkCancellation cancelled_token = Inl OperationCancelled
   \<and> fastFolderSize sample_disk ''/w/z'' = FolderSizeCallback None (Some 4)
   \<and> getDirSize sample_disk ''/w/z'' = Resolved (Some 4)
   \<and> fastFolderSize throwing_disk ''/w/z'' = FolderSizeThrows
   \<and> getDirSize throwing_disk ''/w/z'' = Resolved (Some 0)
   \<and> getTreeItem posix_host sample_disk \<lparr>entry_uri = Uri_file ''/w/z'', entry_type = Directory\<rparr>
       \<noteq> Rejected OperationCancelled"
proof -
  have called: "fastFolderSize sample_disk ''/w/z'' = FolderSizeCallback None (Some 4)"
    by (simp add: sample_disk_def)
  have thrown: "fastFolderSize throwing_disk ''/w/z'' = FolderSizeThrows"
    by (simp add: throwing_disk_def)
  have requested: "isCancellationRequested cancelled_token"
    by (simp add: cancelled_token_def)
  from cancellation_never_checked [of cancelled_token sample_disk "''/w/z''" posix_host
      "\<lparr>entry_uri = Uri_file ''/w/z'', entry_type = Directory\<rparr>"] called requested
  have "checkCancellation cancelled_token = Inl OperationCancelled
      \<and> getDirSize sample_disk ''/w/z'' = Resolved (Some 4)
      \<and> getTreeItem posix_host sample_disk \<lparr>entry_uri = Uri_file ''/w/z'', entry_type = Directory\<rparr>
          \<noteq> Rejected OperationCancelled"
    by simp
  moreover from cancellation_never_checked [of cancelled_token throwing_disk "''/w/z''" posix_host
      "\<lparr>entry_uri = Uri_file ''/w/z'', entry_type = Directory\<rparr>"] thrown
  have "getDirSize throwing_disk ''/w/z'' = Resolved (Some 0)"
    by simp
  ultimately show ?thesis using called thrown by blast
qed

text \<open>
  C7 as stated fails: with the token cancelled, the aggregation of \<open>/w\<close> still yields
  its size.
\<close>

theorem cancellation_requested_size_returned:
  "isCancellationRequested cancelled_token
   \<and> checkCancellation cancelled_token = Inl OperationCancelled
   \<and> getDirSize sample_disk ''/w'' = Resolved (Some 6)"
  by (simp add: cancelled_token_def checkCancellation_def getDirSize_def sample_disk_def)

text \<open>
  C3 at a failing input. On a disk where \<open>/gone\<close> has vanished, \<open>_getDirSize\<close> is resolved
  with \<open>undefined\<close>, not 0, the size read from \<open>stat\<close> is \<open>undefined\<close>, not 0, and
  \<open>getTreeItem\<close> is rejected for the directory node and for the file node; only the
  compressed size degrades to 0.
\<close>

theorem size_failures_not_zero:
  "getDirSize missing_everywhere ''/gone'' = Resolved None
   \<and> getTreeItem posix_host missing_everywhere \<lparr>entry_uri = Uri_file ''/gone'', entry_type = Directory\<rparr>
       = Rejected TypeError
   \<and> provider_stat missing_everywhere ''/gone'' =
       Resolved \<lparr>fstype = Unknown, isFile = False, isDirectory = False, isSymbolicLink = False,
                 fsize = None, ctime = NaN, mtime = NaN\<rparr>
   \<and> getTreeItem posix_host missing_everywhere \<lparr>entry_uri = Uri_file ''/gone'', entry_type = File\<rparr>
       = Rejected TypeError
   \<and> getGzipSize missing_everywhere ''/gone'' = 0"
  by (simp add: getTreeItem_File getTreeItem_Directory getDirSize_def getGzipSize_def
      provider_stat_resolves new_FileStat_new_Stats missing_everywhere_def fsPath_def Uri_file_def)

subsection \<open>\<open>getChildren\<close>\<close>

lemma getChildren_root_Nil:
  "filter (\<lambda>folder. scheme (folder_uri folder) = ''file'') folders = [] \<Longrightarrow>
   getChildren h fs (Some folders) None = Resolved []"
  by (simp add: getChildren_def)

lemma getChildren_root_Cons:
  "filter (\<lambda>folder. scheme (folder_uri folder) = ''file'') folders = root # others \<Longrightarrow>
   getChildren h fs (Some folders) None =
     await (readDirectory h fs (folder_uri root))
       (\<lambda>children. Resolved (toEntries h (folder_uri root)
           (array_sort h (compareChildren h) children)))"
  by (simp add: getChildren_def)

text \<open>
  C8. With no workspace folder (\<open>workspaceFolders\<close> undefined or empty) the root request
  is resolved with the empty sequence. With several folders the root request gives what it
  gives when the first folder of scheme \<open>file\<close> is the only folder; with no such folder
  it gives the empty sequence.
\<close>

theorem getChildren_roots:
  "((workspaceFolders = None \<or> workspaceFolders = Some []) \<longrightarrow>
       getChildren h fs workspaceFolders None = Resolved [])
   \<and> getChildren h fs (Some folders) None =
       (case filter (\<lambda>folder. scheme (folder_uri folder) = ''file'') folders of
          [] \<Rightarrow> Resolved []
        | root # others \<Rightarrow> getChildren h fs (Some [root]) None)"
proof -
  let ?P = "\<lambda>folder. scheme (folder_uri folder) = ''file''"
  have none: "getChildren h fs None None = Resolved []"
    by (simp add: getChildren_def)
  have empty: "getChildren h fs (Some []) None = Resolved []"
    by (simp add: getChildren_root_Nil)
  have many: "getChildren h fs (Some folders) None =
       (case filter ?P folders of
          [] \<Rightarrow> Resolved []
        | root # others \<Rightarrow> getChildren h fs (Some [root]) None)"
  proof (cases "filter ?P folders")
    case Nil
    then show ?thesis by (simp add: getChildren_root_Nil)
  next
    case (Cons root others)
    then have "root \<in> set (filter ?P folders)" by simp
    then have "filter ?P [root] = root # []" by simp
    then have "getChildren h fs (Some [root]) None = getChildren h fs (Some folders) None"
      using Cons by (simp only: getChildren_root_Cons)
    with Cons show ?thesis by simp
  qed
  from none empty many show ?thesis by blast
qed

text \<open>
  Below the root, the children come in the order of the listing: no sort is applied.
\<close>

lemma getChildren_nested:
  "getChildren h fs (Some folders) (Some e) =
     await (readDirectory h fs (entry_uri e)) (\<lambda>children. Resolved (toEntries h (entry_uri e) children))"
  by (simp add: getChildren_def)

lemma getChildren_nested_order:
  assumes "fs_readdir fs (fsPath (entry_uri e)) = ReaddirOk names"
  shows "getChildren h fs (Some folders) (Some e) =
     Resolved (map (\<lambda>child.
        \<lparr>entry_uri = Uri_file (path_join h (fsPath (entry_uri e)) child),
         entry_type = (case statSync fs (path_join h (fsPath (entry_uri e)) child) of
            Inl err \<Rightarrow> Unknown | Inr info \<Rightarrow> FileStat_type info)\<rparr>)
       (normalizeNFC_array h names))"
  by (simp add: getChildren_nested readDirectory_listed [OF assms] await_def toEntries_def comp_def)

lemma sample_listing:
  "readDirectory posix_host sample_disk (Uri_file ''/w'')
     = Resolved [(''a.txt'', File), (''b.txt'', File), (''z'', Directory)]"
  by (simp add: readDirectory_listed [where names = "[''a.txt'', ''b.txt'', ''z'']"] sample_disk_def
      normalizeNFC_array_def sample_platforms fsPath_def Uri_file_def sample_types)

lemma sample_comparisons:
  "compareChildren posix_host (''b.txt'', File) (''a.txt'', File) = 1"
  "compareChildren posix_host (''z'', Directory) (''b.txt'', File) = - 1"
  "compareChildren posix_host (''z'', Directory) (''a.txt'', File) = - 1"
  by (simp_all add: compareChildren_def posix_host_def compare_locale_def collation_key_def strcmp_def)

lemma sample_sorted:
  "array_sort posix_host (compareChildren posix_host)
     [(''a.txt'', File), (''b.txt'', File), (''z'', Directory)]
     = [(''z'', Directory), (''a.txt'', File), (''b.txt'', File)]"
proof -
  let ?cmp = "compareChildren posix_host"
  have run: "countAndMakeRun ?cmp [(''a.txt'', File), (''b.txt'', File), (''z'', Directory)]
      = ([(''a.txt'', File), (''b.txt'', File)], [(''z'', Directory)])"
    by (simp add: countAndMakeRun_def Let_def sample_comparisons)
  have "binarySearch ?cmp (''z'', Directory) [(''a.txt'', File), (''b.txt'', File)] 0 (Suc (Suc 0))
      = binarySearch ?cmp (''z'', Directory) [(''a.txt'', File), (''b.txt'', File)] 0 (Suc 0)"
    by (subst binarySearch.simps) (simp add: Let_def sample_comparisons)
  also have "\<dots> = binarySearch ?cmp (''z'', Directory) [(''a.txt'', File), (''b.txt'', File)] 0 0"
    by (subst binarySearch.simps) (simp add: Let_def sample_comparisons)
  also have "\<dots> = 0"
    by (subst binarySearch.simps) simp
  finally have left:
    "binarySearch ?cmp (''z'', Directory) [(''a.txt'', File), (''b.txt'', File)] 0 (Suc (Suc 0)) = 0" .
  show ?thesis
    by (simp add: array_sort_def run left)
qed

lemma sample_root:
  "getChildren posix_host sample_disk (Some [workspace_w]) None
     = Resolved [\<lparr>entry_uri = Uri_file ''/w/z'', entry_type = Directory\<rparr>,
                 \<lparr>entry_uri = Uri_file ''/w/a.txt'', entry_type = File\<rparr>,
                 \<lparr>entry_uri = Uri_file ''/w/b.txt'', entry_type = File\<rparr>]"
proof -
  have root: "filter (\<lambda>folder. scheme (folder_uri folder) = ''file'') [workspace_w] = workspace_w # []"
    by (simp add: workspace_w_def Uri_file_def)
  have uri: "folder_uri workspace_w = Uri_file ''/w''"
    by (simp add: workspace_w_def)
  have "getChildren posix_host sample_disk (Some [workspace_w]) None
     = Resolved (toEntries posix_host (Uri_file ''/w'')
         [(''z'', Directory), (''a.txt'', File), (''b.txt'', File)])"
    unfolding getChildren_root_Cons [OF root] uri sample_listing by (simp add: await_def sample_sorted)
  then show ?thesis
    by (simp add: toEntries_def Uri_file_def fsPath_def sample_platforms)
qed

theorem getChildren_roots_witness:
  "getChildren posix_host sample_disk None None = Resolved []
   \<and> getChildren posix_host sample_disk (Some []) None = Resolved []
   \<and> getChildren posix_host sample_disk (Some [remote_workspace, workspace_w, workspace_z]) None
     = Resolved [\<lparr>entry_uri = Uri_file ''/w/z'', entry_type = Directory\<rparr>,
                 \<lparr>entry_uri = Uri_file ''/w/a.txt'', entry_type = File\<rparr>,
                 \<lparr>entry_uri = Uri_file ''/w/b.txt'', entry_type = File\<rparr>]"
proof -
  have first: "filter (\<lambda>folder. scheme (folder_uri folder) = ''file'')
      [remote_workspace, workspace_w, workspace_z] = [workspace_w, workspace_z]"
    by (simp add: remote_workspace_def workspace_w_def workspace_z_def Uri_file_def)
  have "getChildren posix_host sample_disk (Some [remote_workspace, workspace_w, workspace_z]) None
      = getChildren posix_host sample_disk (Some [workspace_w]) None"
    using getChildren_roots [of "Some []" posix_host sample_disk
        "[remote_workspace, workspace_w, workspace_z]"]
    unfolding first by simp
  moreover have "getChildren posix_host sample_disk None None = Resolved []"
    using getChildren_roots [of None posix_host sample_disk "[]"] by simp
  moreover have "getChildren posix_host sample_disk (Some []) None = Resolved []"
    using getChildren_roots [of "Some []" posix_host sample_disk "[]"] by simp
  ultimately show ?thesis by (simp add: sample_root)
qed

text \<open>
  The sort at the root on two children, and on three children of mixed types: the
  comparator answers 1 for two children of different types neither of which is a
  \<open>Directory\<close>, in either order, so the three form one ascending run and stay as listed.
\<close>

lemma array_sort_two:
  "array_sort h cmp [a, b] = (if cmp b a < 0 then [b, a] else [a, b])"
  by (simp add: array_sort_def countAndMakeRun_def Let_def)

lemma mixed_types_run_kept:
  "array_sort h (compareChildren h) [(''b'', File), (''c'', Unknown), (''a'', File)]
     = [(''b'', File), (''c'', Unknown), (''a'', File)]"
  by (simp add: array_sort_def countAndMakeRun_def Let_def compareChildren_def)

text \<open>
  C1 at a failing input. The root \<open>/w\<close> holds the file \<open>B.txt\<close> and the dangling link \<open>a\<close>,
  which \<open>readDirectory\<close> tags \<open>Unknown\<close>; the listing is in \<open>strcmp\<close> order, \<open>B.txt\<close> first.
  The two children have different types and neither is a \<open>Directory\<close>, so the comparator
  answers 1 and the sort leaves \<open>B.txt\<close> before \<open>a\<close>, although \<open>a\<close> compares below \<open>B.txt\<close>
  under \<open>localeCompare\<close>.
\<close>

theorem root_sort_mixed_types:
  "fs_readdir dangling_link_disk ''/w'' = ReaddirOk [''B.txt'', ''a'']
   \<and> strcmp ''B.txt'' ''a'' < 0
   \<and> readDirectory posix_host dangling_link_disk (Uri_file ''/w'')
     = Resolved [(''B.txt'', File), (''a'', Unknown)]
   \<and> getChildren posix_host dangling_link_disk (Some [workspace_w]) None
     = Resolved [\<lparr>entry_uri = Uri_file ''/w/B.txt'', entry_type = File\<rparr>,
                 \<lparr>entry_uri = Uri_file ''/w/a'', entry_type = Unknown\<rparr>]
   \<and> localeCompare posix_host ''a'' ''B.txt'' < 0"
proof -
  have listed: "fs_readdir dangling_link_disk ''/w'' = ReaddirOk [''B.txt'', ''a'']"
    by (simp add: dangling_link_disk_def)
  have order: "strcmp ''B.txt'' ''a'' < 0"
    by (simp add: strcmp_def)
  have listing: "readDirectory posix_host dangling_link_disk (Uri_file ''/w'')
     = Resolved [(''B.txt'', File), (''a'', Unknown)]"
    by (simp add: readDirectory_listed [where names = "[''B.txt'', ''a'']"] dangling_link_disk_def
        normalizeNFC_array_def sample_platforms fsPath_def Uri_file_def sample_types)
  have kept: "array_sort posix_host (compareChildren posix_host) [(''B.txt'', File), (''a'', Unknown)]
      = [(''B.txt'', File), (''a'', Unknown)]"
    by (simp add: array_sort_two compareChildren_def)
  have root: "filter (\<lambda>folder. scheme (folder_uri folder) = ''file'') [workspace_w] = workspace_w # []"
    by (simp add: workspace_w_def Uri_file_def)
  have uri: "folder_uri workspace_w = Uri_file ''/w''"
    by (simp add: workspace_w_def)
  have "getChildren posix_host dangling_link_disk (Some [workspace_w]) None
     = Resolved (toEntries posix_host (Uri_file ''/w'') [(''B.txt'', File), (''a'', Unknown)])"
    unfolding getChildren_root_Cons [OF root] uri listing by (simp add: await_def kept)
  then have children: "getChildren posix_host dangling_link_disk (Some [workspace_w]) None
     = Resolved [\<lparr>entry_uri = Uri_file ''/w/B.txt'', entry_type = File\<rparr>,
                 \<lparr>entry_uri = Uri_file ''/w/a'', entry_type = Unknown\<rparr>]"
    by (simp add: toEntries_def Uri_file_def fsPath_def sample_platforms)
  have below: "localeCompare posix_host ''a'' ''B.txt'' < 0"
    by (simp add: posix_host_def compare_locale_def collation_key_def)
  from listed order listing children below show ?thesis by blast
qed

end
